theory Spec2Isabelle
  imports Main "HOL-Library.Word"
begin

unbundle bit_operations_syntax

section \<open>Native values and introspection descriptors\<close>

text \<open>
  The bridge of \<^verbatim>\<open>lgi.c\<close> sits between three worlds: native memory (GLib objects,
  structures, arrays), the introspection catalog (GIBaseInfo, GITypeInfo, ...) and the
  Lua state. Pointers are 64-bit words with \<open>0\<close> for \<^verbatim>\<open>NULL\<close>. A \<^verbatim>\<open>GArgument\<close> is
  a union of at most pointer size: the model keeps its eight bytes as one word, and the
  member \<^verbatim>\<open>v_pointer\<close> reads all of them.
\<close>

type_synonym gpointer = "64 word"
type_synonym GArgument = "64 word"
type_synonym GType = nat

datatype GITypeTag =
    GI_TYPE_TAG_VOID | GI_TYPE_TAG_BOOLEAN
  | GI_TYPE_TAG_INT8 | GI_TYPE_TAG_UINT8 | GI_TYPE_TAG_INT16 | GI_TYPE_TAG_UINT16
  | GI_TYPE_TAG_INT32 | GI_TYPE_TAG_UINT32 | GI_TYPE_TAG_INT64 | GI_TYPE_TAG_UINT64
  | GI_TYPE_TAG_FLOAT | GI_TYPE_TAG_DOUBLE | GI_TYPE_TAG_GTYPE
  | GI_TYPE_TAG_UTF8 | GI_TYPE_TAG_FILENAME
  | GI_TYPE_TAG_ARRAY | GI_TYPE_TAG_INTERFACE
  | GI_TYPE_TAG_GLIST | GI_TYPE_TAG_GSLIST | GI_TYPE_TAG_GHASH | GI_TYPE_TAG_ERROR

datatype GIInfoType =
    GI_INFO_TYPE_INVALID | GI_INFO_TYPE_FUNCTION | GI_INFO_TYPE_CALLBACK
  | GI_INFO_TYPE_STRUCT | GI_INFO_TYPE_BOXED | GI_INFO_TYPE_ENUM | GI_INFO_TYPE_FLAGS
  | GI_INFO_TYPE_OBJECT | GI_INFO_TYPE_INTERFACE | GI_INFO_TYPE_CONSTANT
  | GI_INFO_TYPE_ERROR_DOMAIN | GI_INFO_TYPE_UNION | GI_INFO_TYPE_VALUE
  | GI_INFO_TYPE_SIGNAL | GI_INFO_TYPE_VFUNC | GI_INFO_TYPE_PROPERTY
  | GI_INFO_TYPE_FIELD | GI_INFO_TYPE_ARG | GI_INFO_TYPE_TYPE | GI_INFO_TYPE_UNRESOLVED

text \<open>The numeric value of a \<^verbatim>\<open>GIInfoType\<close>, as the C enumeration counts it from 0.\<close>

fun info_type_code :: "GIInfoType \<Rightarrow> int" where
  "info_type_code GI_INFO_TYPE_INVALID = 0"
| "info_type_code GI_INFO_TYPE_FUNCTION = 1"
| "info_type_code GI_INFO_TYPE_CALLBACK = 2"
| "info_type_code GI_INFO_TYPE_STRUCT = 3"
| "info_type_code GI_INFO_TYPE_BOXED = 4"
| "info_type_code GI_INFO_TYPE_ENUM = 5"
| "info_type_code GI_INFO_TYPE_FLAGS = 6"
| "info_type_code GI_INFO_TYPE_OBJECT = 7"
| "info_type_code GI_INFO_TYPE_INTERFACE = 8"
| "info_type_code GI_INFO_TYPE_CONSTANT = 9"
| "info_type_code GI_INFO_TYPE_ERROR_DOMAIN = 10"
| "info_type_code GI_INFO_TYPE_UNION = 11"
| "info_type_code GI_INFO_TYPE_VALUE = 12"
| "info_type_code GI_INFO_TYPE_SIGNAL = 13"
| "info_type_code GI_INFO_TYPE_VFUNC = 14"
| "info_type_code GI_INFO_TYPE_PROPERTY = 15"
| "info_type_code GI_INFO_TYPE_FIELD = 16"
| "info_type_code GI_INFO_TYPE_ARG = 17"
| "info_type_code GI_INFO_TYPE_TYPE = 18"
| "info_type_code GI_INFO_TYPE_UNRESOLVED = 19"

datatype GITransfer = GI_TRANSFER_NOTHING | GI_TRANSFER_CONTAINER | GI_TRANSFER_EVERYTHING

datatype GIDirection = GI_DIRECTION_IN | GI_DIRECTION_OUT | GI_DIRECTION_INOUT

datatype GIArrayType =
  GI_ARRAY_TYPE_C | GI_ARRAY_TYPE_ARRAY | GI_ARRAY_TYPE_PTR_ARRAY | GI_ARRAY_TYPE_BYTE_ARRAY

text \<open>
  Descriptors are immutable and owned by the catalog, so the model passes them by value.
  Each field is named after the accessor the C code calls on the descriptor.
\<close>

record GIBaseInfo =
  g_base_info_get_type :: GIInfoType
  g_base_info_get_namespace :: string
  g_base_info_get_name :: string
  g_enum_info_get_storage_type :: GITypeTag
  g_struct_info_get_size :: nat
  g_registered_type_info_get_g_type :: GType

datatype GITypeInfo = GITypeInfo
  (g_type_info_get_tag: GITypeTag)
  (g_type_info_get_interface: "GIBaseInfo option")
  (g_type_info_get_array_fixed_size: int)
  (g_type_info_get_array_type: GIArrayType)
  (g_type_info_is_zero_terminated: bool)
  (g_type_info_get_param_type: "GITypeInfo option")

record GIArgInfo =
  g_arg_info_get_direction :: GIDirection
  g_arg_info_load_type :: GITypeInfo
  g_arg_info_is_optional :: bool
  g_arg_info_may_be_null :: bool
  g_arg_info_is_caller_allocates :: bool
  g_arg_info_get_ownership_transfer :: GITransfer

record GIFunctionInfo =
  g_function_info_get_flags :: "32 word"
  g_callable_info_args :: "GIArgInfo list"
  g_callable_info_load_return_type :: GITypeInfo
  g_callable_info_get_caller_owns :: GITransfer
  g_base_info_get_container :: "GIBaseInfo option"

definition GI_FUNCTION_IS_METHOD :: "32 word" where "GI_FUNCTION_IS_METHOD = 1"
definition GI_FUNCTION_IS_CONSTRUCTOR :: "32 word" where "GI_FUNCTION_IS_CONSTRUCTOR = 2"
definition GI_FUNCTION_THROWS :: "32 word" where "GI_FUNCTION_THROWS = 32"

record GError =
  message :: string
  code :: int

section \<open>The Lua state\<close>

text \<open>
  Lua 5.1 values. Numbers are kept as integers (every number this code pushes comes from
  \<^verbatim>\<open>lua_pushinteger\<close> or a scalar codec). A full userdata is identified by the address
  of its block, which is what \<^verbatim>\<open>lua_newuserdata\<close> and \<^verbatim>\<open>lua_touserdata\<close> return.
\<close>

datatype lua_value =
    LNil | LBoolean bool | LNumber int | LString string
  | LLightUserdata gpointer | LTable nat | LUserdata gpointer | LFunction nat

type_synonym lua_table = "(lua_value \<times> lua_value) list"

text \<open>
  Every way a call can leave other than by returning: a Lua error raised with a message,
  an argument error (\<^verbatim>\<open>luaL_argerror\<close> with its position and extra message), memory
  exhaustion, a failed \<^verbatim>\<open>g_assert\<close>, undefined behaviour of the C code (an invalid
  dereference or a misuse of the Lua API), a metamethod this model does not run, and an
  exhausted iteration budget.
\<close>

datatype lua_error =
    LuaError string | ArgError int string | MemError | AssertFailed | Fault
  | NotModelled | OutOfFuel

text \<open>Native effects that the claims speak about are recorded, oldest first.\<close>

datatype event =
    G_object_ref gpointer | G_object_unref gpointer | G_free gpointer
  | G_array_unref gpointer | G_error_free | G_warning
  | Lua_call lua_value "lua_value list"

text \<open>
  \<^verbatim>\<open>struct ud_compound\<close> and \<^verbatim>\<open>struct ud_function\<close>. A block from \<^verbatim>\<open>lua_newuserdata\<close>
  is not initialised, so each field of a compound is \<open>None\<close> until the code writes it.
\<close>

record ud_compound =
  addr :: "gpointer option"
  ref_repo :: "int option"
  owns :: "bool option"

record ud_function =
  invoker :: gpointer
  info :: GIFunctionInfo

datatype ud_payload = Ud_compound ud_compound | Ud_function ud_function

record userdata =
  payload :: ud_payload
  metatable :: lua_value
  nbytes :: nat

text \<open>
  The stack of the running C function is kept top first: index \<open>-1\<close> is the head of the
  list, index \<open>1\<close> its last element. Tables live in a heap indexed by table id; table
  \<open>registry\<close> is the Lua registry. A table is an association list whose first binding of
  a key wins, an absent key reads as nil. Tables carry no metatable in this model (the
  weak mode of the cache table only matters to the collector, which never runs between
  two steps of the model). \<open>blocks\<close> is the supply of addresses \<^verbatim>\<open>lua_newuserdata\<close>
  will hand out.
\<close>

record lua_State =
  stack :: "lua_value list"
  tables :: "nat \<Rightarrow> lua_table"
  ntables :: nat
  udata :: "gpointer \<Rightarrow> userdata option"
  blocks :: "gpointer list"
  events :: "event list"

definition bindE :: "lua_error + 'a \<Rightarrow> ('a \<Rightarrow> lua_error + 'b) \<Rightarrow> lua_error + 'b" where
  "bindE m f = (case m of Inl e \<Rightarrow> Inl e | Inr x \<Rightarrow> f x)"

definition registry :: nat where "registry = 0"
definition LUA_REGISTRYINDEX :: int where "LUA_REGISTRYINDEX = -10000"
definition LUA_REFNIL :: int where "LUA_REFNIL = -1"
definition FREELIST_REF :: int where "FREELIST_REF = 0"

definition tget :: "lua_table \<Rightarrow> lua_value \<Rightarrow> lua_value" where
  "tget t k = (case map_of t k of None \<Rightarrow> LNil | Some v \<Rightarrow> v)"

definition tset :: "lua_table \<Rightarrow> lua_value \<Rightarrow> lua_value \<Rightarrow> lua_table" where
  "tset t k v = (k, v) # t"

definition index2adr :: "lua_State \<Rightarrow> int \<Rightarrow> lua_value option" where
  "index2adr L idx =
     (if 0 < idx then
        (if nat idx \<le> length (stack L)
         then Some (stack L ! (length (stack L) - nat idx)) else None)
      else if idx = LUA_REGISTRYINDEX then Some (LTable registry)
      else if idx < 0 \<and> nat (- idx) \<le> length (stack L)
        then Some (stack L ! (nat (- idx) - 1))
      else None)"

definition luaL_typename :: "lua_value option \<Rightarrow> string" where
  "luaL_typename v =
     (case v of
        None \<Rightarrow> ''no value''
      | Some LNil \<Rightarrow> ''nil''
      | Some (LBoolean _) \<Rightarrow> ''boolean''
      | Some (LNumber _) \<Rightarrow> ''number''
      | Some (LString _) \<Rightarrow> ''string''
      | Some (LLightUserdata _) \<Rightarrow> ''userdata''
      | Some (LTable _) \<Rightarrow> ''table''
      | Some (LUserdata _) \<Rightarrow> ''userdata''
      | Some (LFunction _) \<Rightarrow> ''function'')"

subsection \<open>Stack primitives\<close>

definition lua_push :: "lua_value \<Rightarrow> lua_State \<Rightarrow> lua_State" where
  "lua_push v L = L\<lparr>stack := v # stack L\<rparr>"

definition lua_pushnil :: "lua_State \<Rightarrow> lua_State" where
  "lua_pushnil L = lua_push LNil L"

definition lua_pushboolean :: "bool \<Rightarrow> lua_State \<Rightarrow> lua_State" where
  "lua_pushboolean b L = lua_push (LBoolean b) L"

definition lua_pushinteger :: "int \<Rightarrow> lua_State \<Rightarrow> lua_State" where
  "lua_pushinteger n L = lua_push (LNumber n) L"

definition lua_pushstring :: "string \<Rightarrow> lua_State \<Rightarrow> lua_State" where
  "lua_pushstring s L = lua_push (LString s) L"

definition lua_pushlightuserdata :: "gpointer \<Rightarrow> lua_State \<Rightarrow> lua_State" where
  "lua_pushlightuserdata p L = lua_push (LLightUserdata p) L"

definition lua_pushvalue :: "int \<Rightarrow> lua_State \<Rightarrow> lua_error + lua_State" where
  "lua_pushvalue idx L =
     (case index2adr L idx of None \<Rightarrow> Inl Fault | Some v \<Rightarrow> Inr (lua_push v L))"

definition lua_gettop :: "lua_State \<Rightarrow> int" where
  "lua_gettop L = int (length (stack L))"

definition lua_pop :: "nat \<Rightarrow> lua_State \<Rightarrow> lua_State" where
  "lua_pop n L = L\<lparr>stack := drop n (stack L)\<rparr>"

definition lua_settop :: "int \<Rightarrow> lua_State \<Rightarrow> lua_State" where
  "lua_settop idx L =
     (if 0 \<le> idx then
        (if nat idx \<le> length (stack L)
         then L\<lparr>stack := drop (length (stack L) - nat idx) (stack L)\<rparr>
         else L\<lparr>stack := replicate (nat idx - length (stack L)) LNil @ stack L\<rparr>)
      else L\<lparr>stack := drop (nat (- idx - 1)) (stack L)\<rparr>)"

text \<open>
  \<^verbatim>\<open>lua_replace\<close> moves the top into the given slot and pops it; \<^verbatim>\<open>lua_insert\<close> moves
  the top into the given slot and shifts the slots above it up.
\<close>

definition lua_replace :: "int \<Rightarrow> lua_State \<Rightarrow> lua_error + lua_State" where
  "lua_replace idx L =
     (case stack L of
        [] \<Rightarrow> Inl Fault
      | v # st \<Rightarrow>
          if idx = -1 then Inr (L\<lparr>stack := st\<rparr>)
          else if idx < -1 \<and> nat (- idx) \<le> length (stack L)
            then Inr (L\<lparr>stack := st[nat (- idx) - 2 := v]\<rparr>)
          else if 0 < idx \<and> nat idx \<le> length st
            then Inr (L\<lparr>stack := st[length st - nat idx := v]\<rparr>)
          else Inl Fault)"

definition lua_insert :: "int \<Rightarrow> lua_State \<Rightarrow> lua_error + lua_State" where
  "lua_insert idx L =
     (case stack L of
        [] \<Rightarrow> Inl Fault
      | v # st \<Rightarrow>
          if idx < 0 \<and> nat (- idx) \<le> length (stack L)
            then Inr (L\<lparr>stack := take (nat (- idx) - 1) st @ v # drop (nat (- idx) - 1) st\<rparr>)
          else if 0 < idx \<and> nat idx \<le> length (stack L)
            then Inr (L\<lparr>stack := take (length (stack L) - nat idx) st
                                   @ v # drop (length (stack L) - nat idx) st\<rparr>)
          else Inl Fault)"

definition lua_isnil :: "int \<Rightarrow> lua_State \<Rightarrow> bool" where
  "lua_isnil idx L = (index2adr L idx = Some LNil)"

definition lua_isnoneornil :: "int \<Rightarrow> lua_State \<Rightarrow> bool" where
  "lua_isnoneornil idx L = (index2adr L idx = None \<or> index2adr L idx = Some LNil)"

definition lua_rawequal :: "int \<Rightarrow> int \<Rightarrow> lua_State \<Rightarrow> bool" where
  "lua_rawequal i j L =
     (case (index2adr L i, index2adr L j) of
        (Some a, Some b) \<Rightarrow> a = b
      | _ \<Rightarrow> False)"

definition lua_touserdata :: "int \<Rightarrow> lua_State \<Rightarrow> gpointer" where
  "lua_touserdata idx L =
     (case index2adr L idx of
        Some (LUserdata p) \<Rightarrow> p
      | Some (LLightUserdata p) \<Rightarrow> p
      | _ \<Rightarrow> 0)"

definition lua_tointeger :: "int \<Rightarrow> lua_State \<Rightarrow> int" where
  "lua_tointeger idx L = (case index2adr L idx of Some (LNumber n) \<Rightarrow> n | _ \<Rightarrow> 0)"

subsection \<open>Tables\<close>

definition lua_createtable :: "lua_State \<Rightarrow> lua_State" where
  "lua_createtable L =
     L\<lparr>stack := LTable (ntables L) # stack L,
       tables := (tables L)(ntables L := []),
       ntables := Suc (ntables L)\<rparr>"

definition lua_rawgeti :: "int \<Rightarrow> int \<Rightarrow> lua_State \<Rightarrow> lua_error + lua_State" where
  "lua_rawgeti idx n L =
     (case index2adr L idx of
        Some (LTable t) \<Rightarrow> Inr (lua_push (tget (tables L t) (LNumber n)) L)
      | _ \<Rightarrow> Inl Fault)"

definition lua_rawget :: "int \<Rightarrow> lua_State \<Rightarrow> lua_error + lua_State" where
  "lua_rawget idx L =
     (case index2adr L idx of
        Some (LTable t) \<Rightarrow>
          (case stack L of
             [] \<Rightarrow> Inl Fault
           | k # st \<Rightarrow> Inr (L\<lparr>stack := tget (tables L t) k # st\<rparr>))
      | _ \<Rightarrow> Inl Fault)"

definition lua_rawset :: "int \<Rightarrow> lua_State \<Rightarrow> lua_error + lua_State" where
  "lua_rawset idx L =
     (case index2adr L idx of
        Some (LTable t) \<Rightarrow>
          (case stack L of
             v # k # st \<Rightarrow>
               if k = LNil then Inl (LuaError ''table index is nil'')
               else Inr (L\<lparr>stack := st, tables := (tables L)(t := tset (tables L t) k v)\<rparr>)
           | _ \<Rightarrow> Inl Fault)
      | _ \<Rightarrow> Inl Fault)"

definition lua_rawseti :: "int \<Rightarrow> int \<Rightarrow> lua_State \<Rightarrow> lua_error + lua_State" where
  "lua_rawseti idx n L =
     (case index2adr L idx of
        Some (LTable t) \<Rightarrow>
          (case stack L of
             v # st \<Rightarrow>
               Inr (L\<lparr>stack := st, tables := (tables L)(t := tset (tables L t) (LNumber n) v)\<rparr>)
           | _ \<Rightarrow> Inl Fault)
      | _ \<Rightarrow> Inl Fault)"

text \<open>
  \<^verbatim>\<open>lua_getfield\<close> on a table reads the field; on nil, a boolean, a number, a light
  userdata or a function it raises Lua's ``attempt to index'' error. Strings and full
  userdata would run their \<^verbatim>\<open>__index\<close> metamethod, which is outside the model.
\<close>

definition lua_getfield :: "int \<Rightarrow> string \<Rightarrow> lua_State \<Rightarrow> lua_error + lua_State" where
  "lua_getfield idx k L =
     (case index2adr L idx of
        None \<Rightarrow> Inl Fault
      | Some (LTable t) \<Rightarrow> Inr (lua_push (tget (tables L t) (LString k)) L)
      | Some (LString _) \<Rightarrow> Inl NotModelled
      | Some (LUserdata _) \<Rightarrow> Inl NotModelled
      | Some v \<Rightarrow>
          Inl (LuaError (''attempt to index a '' @ luaL_typename (Some v) @ '' value'')))"

subsection \<open>Userdata, metatables, references, calls\<close>

definition lua_newuserdata ::
  "nat \<Rightarrow> ud_payload \<Rightarrow> lua_State \<Rightarrow> lua_error + (gpointer \<times> lua_State)" where
  "lua_newuserdata sz fresh L =
     (case blocks L of
        [] \<Rightarrow> Inl MemError
      | p # ps \<Rightarrow>
          Inr (p, L\<lparr>stack := LUserdata p # stack L,
                    udata := (udata L)(p \<mapsto> \<lparr>payload = fresh, metatable = LNil, nbytes = sz\<rparr>),
                    blocks := ps\<rparr>))"

definition lua_getmetatable :: "int \<Rightarrow> lua_State \<Rightarrow> bool \<times> lua_State" where
  "lua_getmetatable idx L =
     (case index2adr L idx of
        Some (LUserdata p) \<Rightarrow>
          (case udata L p of
             Some u \<Rightarrow> if metatable u = LNil then (False, L) else (True, lua_push (metatable u) L)
           | None \<Rightarrow> (False, L))
      | _ \<Rightarrow> (False, L))"

definition lua_setmetatable :: "int \<Rightarrow> lua_State \<Rightarrow> lua_error + lua_State" where
  "lua_setmetatable idx L =
     (case (index2adr L idx, stack L) of
        (Some (LUserdata p), mt # st) \<Rightarrow>
          (case udata L p of
             Some u \<Rightarrow> Inr (L\<lparr>stack := st, udata := (udata L)(p \<mapsto> u\<lparr>metatable := mt\<rparr>)\<rparr>)
           | None \<Rightarrow> Inl Fault)
      | _ \<Rightarrow> Inl Fault)"

definition luaL_getmetatable :: "string \<Rightarrow> lua_State \<Rightarrow> lua_error + lua_State" where
  "luaL_getmetatable tname L = lua_getfield LUA_REGISTRYINDEX tname L"

definition luaL_argerror :: "int \<Rightarrow> string \<Rightarrow> lua_error" where
  "luaL_argerror narg extramsg = ArgError narg extramsg"

definition luaL_typerror :: "int \<Rightarrow> string \<Rightarrow> lua_State \<Rightarrow> lua_error" where
  "luaL_typerror narg tname L =
     luaL_argerror narg (tname @ '' expected, got '' @ luaL_typename (index2adr L narg))"

definition luaL_checkudata :: "int \<Rightarrow> string \<Rightarrow> lua_State \<Rightarrow> lua_error + gpointer" where
  "luaL_checkudata ud tname L =
     (let p = lua_touserdata ud L in
      if p \<noteq> 0 \<and> fst (lua_getmetatable ud L) then
        (case lua_getfield LUA_REGISTRYINDEX tname (snd (lua_getmetatable ud L)) of
           Inl e \<Rightarrow> Inl e
         | Inr L' \<Rightarrow> if lua_rawequal (-1) (-2) L' then Inr p else Inl (luaL_typerror ud tname L))
      else Inl (luaL_typerror ud tname L))"

fun border :: "lua_table \<Rightarrow> nat \<Rightarrow> nat \<Rightarrow> nat" where
  "border t 0 n = n"
| "border t (Suc fuel) n =
     (if tget t (LNumber (int n + 1)) = LNil then n else border t fuel (Suc n))"

definition lua_objlen :: "lua_table \<Rightarrow> nat" where
  "lua_objlen t = border t (length t) 0"

definition number_of :: "lua_value \<Rightarrow> int" where
  "number_of v = (case v of LNumber n \<Rightarrow> n | _ \<Rightarrow> 0)"

text \<open>
  \<^verbatim>\<open>luaL_ref\<close> and \<^verbatim>\<open>luaL_unref\<close> of Lua 5.1: slot \<open>FREELIST_REF\<close> of the table heads
  the list of freed references, a nil value gets \<open>LUA_REFNIL\<close>.
\<close>

definition luaL_ref :: "int \<Rightarrow> lua_State \<Rightarrow> lua_error + (int \<times> lua_State)" where
  "luaL_ref t L =
     (case (index2adr L t, stack L) of
        (Some (LTable tb), v # st) \<Rightarrow>
          if v = LNil then Inr (LUA_REFNIL, L\<lparr>stack := st\<rparr>)
          else if number_of (tget (tables L tb) (LNumber FREELIST_REF)) \<noteq> 0 then
            Inr (number_of (tget (tables L tb) (LNumber FREELIST_REF)),
                 L\<lparr>stack := st,
                   tables := (tables L)(tb :=
                     tset (tset (tables L tb) (LNumber FREELIST_REF)
                             (tget (tables L tb)
                                (LNumber (number_of (tget (tables L tb) (LNumber FREELIST_REF))))))
                          (LNumber (number_of (tget (tables L tb) (LNumber FREELIST_REF)))) v)\<rparr>)
          else
            Inr (int (lua_objlen (tables L tb)) + 1,
                 L\<lparr>stack := st,
                   tables := (tables L)(tb :=
                     tset (tables L tb) (LNumber (int (lua_objlen (tables L tb)) + 1)) v)\<rparr>)
      | _ \<Rightarrow> Inl Fault)"

definition luaL_unref :: "int \<Rightarrow> int \<Rightarrow> lua_State \<Rightarrow> lua_error + lua_State" where
  "luaL_unref t r L =
     (if 0 \<le> r then
        (case index2adr L t of
           Some (LTable tb) \<Rightarrow>
             Inr (L\<lparr>tables := (tables L)(tb :=
                    tset (tset (tables L tb) (LNumber r)
                            (tget (tables L tb) (LNumber FREELIST_REF)))
                         (LNumber FREELIST_REF) (LNumber r))\<rparr>)
         | _ \<Rightarrow> Inl Fault)
      else Inr L)"

text \<open>
  A hook is an opaque Lua function: \<^verbatim>\<open>lua_call\<close> records the callee and its arguments
  (first argument first) and removes them from the stack. The bridge only ever calls
  hooks for no results. Calling a value that is not a function raises.
\<close>

definition lua_call :: "nat \<Rightarrow> nat \<Rightarrow> lua_State \<Rightarrow> lua_error + lua_State" where
  "lua_call nargs nresults L =
     (if length (stack L) < Suc nargs then Inl Fault
      else
        (case stack L ! nargs of
           LFunction f \<Rightarrow>
             if nresults = 0 then
               Inr (L\<lparr>stack := drop (Suc nargs) (stack L),
                      events := events L @ [Lua_call (LFunction f) (rev (take nargs (stack L)))]\<rparr>)
             else Inl NotModelled
         | LUserdata _ \<Rightarrow> Inl NotModelled
         | LTable _ \<Rightarrow> Inl NotModelled
         | v \<Rightarrow> Inl (LuaError (''attempt to call a '' @ luaL_typename (Some v) @ '' value''))))"

definition emit :: "event \<Rightarrow> lua_State \<Rightarrow> lua_State" where
  "emit e L = L\<lparr>events := events L @ [e]\<rparr>"


definition lua_tostring :: "int \<Rightarrow> lua_State \<Rightarrow> string option" where
  "lua_tostring idx L =
     (case index2adr L idx of
        Some (LString s) \<Rightarrow> Some s
      | _ \<Rightarrow> None)"

definition g_strcmp0 :: "string option \<Rightarrow> string option \<Rightarrow> bool" where
  "g_strcmp0 a b = (a = b)"

text \<open>
  \<^verbatim>\<open>lua_concat\<close> of strings. Numbers would be converted and other values would run a
  metamethod or raise; the bridge only concatenates strings it has just pushed.
\<close>

fun string_of :: "lua_value \<Rightarrow> string option" where
  "string_of (LString s) = Some s"
| "string_of _ = None"

definition lua_concat :: "nat \<Rightarrow> lua_State \<Rightarrow> lua_error + lua_State" where
  "lua_concat n L =
     (if length (stack L) < n then Inl Fault
      else
        (case those (map string_of (rev (take n (stack L)))) of
           Some ss \<Rightarrow> Inr (L\<lparr>stack := LString (concat ss) # drop n (stack L)\<rparr>)
         | None \<Rightarrow> Inl NotModelled))"

section \<open>The environment of the bridge\<close>

text \<open>
  One row of the table \<^verbatim>\<open>decltype.h\<close> (the file is not part of the sources at hand, so
  the table is a parameter): the size of the C type, what \<^verbatim>\<open>push(L, val->argf)\<close> pushes
  for a slot, what \<^verbatim>\<open>dtor(val->argf)\<close> releases, what \<^verbatim>\<open>(ctype) check(L, index)\<close>
  stores into a slot, and the accessors of a \<^verbatim>\<open>GValue\<close> of that type.
\<close>

record GValue =
  g_type :: GType
  data :: GArgument

record decl =
  ctype_size :: nat
  push :: "GArgument \<Rightarrow> lua_value"
  dtor :: "GArgument \<Rightarrow> event list"
  check :: "lua_State \<Rightarrow> int \<Rightarrow> lua_error + GArgument"
  val_get :: "GValue \<Rightarrow> GArgument"
  val_set :: "GValue \<Rightarrow> GArgument \<Rightarrow> GValue"

text \<open>
  Everything the bridge consumes from outside: the globals set once by
  \<^verbatim>\<open>luaopen_lgi__core\<close>, the keys of \<^verbatim>\<open>enum lgi_reg\<close> (declared in \<^verbatim>\<open>lgi.h\<close>), the
  scalar table, typed views of native memory (\<open>None\<close> where an address cannot be read),
  the GType system, the low-level call primitive, and the catalog. \<open>g_newa E i\<close> is
  whatever slot \<open>i\<close> of a fresh \<^verbatim>\<open>g_newa\<close> array happens to hold (the array is not
  initialised), \<open>address_of_err\<close> the address of the local \<^verbatim>\<open>err\<close> of
  \<^verbatim>\<open>function_call\<close>. \<^verbatim>\<open>ffi_call(cif, fn, rvalue, avalue)\<close> passes the contents of the
  argument slots to the callee by value and stores what the callee returns into the
  return slot; it writes no argument slot. So \<open>ffi_call\<close> maps the function address,
  the content of the return slot before the call and the list of the argument values to
  the content of the return slot after the call (a callee that returns nothing leaves
  it as it was) and to what the callee left in \<^verbatim>\<open>err\<close>. What a callee writes through
  a pointer it was given goes to native memory, which the slots are not a part of.
\<close>

record env =
  lgi_regkey :: int
  LGI_REG_CACHE :: int
  LGI_REG_TYPEINFO :: int
  LGI_REG_REPO :: int
  lgi_baseinfo_info :: gpointer
  decltype :: "GITypeTag \<Rightarrow> decl option"
  garg_at :: "gpointer \<Rightarrow> GArgument option"
  garray_at :: "gpointer \<Rightarrow> (gpointer \<times> 32 word) option"
  g_type_from_instance :: "gpointer \<Rightarrow> GType option"
  g_type_is_a :: "GType \<Rightarrow> GType \<Rightarrow> bool"
  g_type_name :: "GType \<Rightarrow> string"
  g_newa :: "nat \<Rightarrow> GArgument"
  address_of_err :: gpointer
  ffi_call :: "gpointer \<Rightarrow> GArgument \<Rightarrow> GArgument list \<Rightarrow> GArgument \<times> GError option"
  info_at :: "gpointer \<Rightarrow> GIBaseInfo option"
  g_irepository_find_by_name :: "string \<Rightarrow> string \<Rightarrow> gpointer"
  g_object_info_find_method :: "gpointer \<Rightarrow> string \<Rightarrow> gpointer"
  g_interface_info_find_method :: "gpointer \<Rightarrow> string \<Rightarrow> gpointer"
  g_struct_info_find_method :: "gpointer \<Rightarrow> string \<Rightarrow> gpointer"
  g_constant_info_get_type :: "GIBaseInfo \<Rightarrow> GITypeInfo"
  g_constant_info_get_value :: "GIBaseInfo \<Rightarrow> GArgument"
  lgi_callable_create :: "GIBaseInfo \<Rightarrow> lua_State \<Rightarrow> lua_error + (int \<times> lua_State)"

definition UD_COMPOUND :: string where "UD_COMPOUND = ''lgi.compound''"
definition UD_FUNCTION :: string where "UD_FUNCTION = ''lgi.function''"

text \<open>
  \<^verbatim>\<open>G_STRUCT_OFFSET(struct ud_compound, data)\<close> on an LP64 target: the pointer, then
  the two bit-fields in one \<^verbatim>\<open>int\<close>, then the bytes.
\<close>

definition ud_compound_data_offset :: nat where "ud_compound_data_offset = 12"

definition G_TYPE_FUNDAMENTAL_MAX :: GType where "G_TYPE_FUNDAMENTAL_MAX = 255 * 4"

definition G_TYPE_IS_DERIVED :: "GType \<Rightarrow> bool" where
  "G_TYPE_IS_DERIVED t = (G_TYPE_FUNDAMENTAL_MAX < t)"

subsection \<open>Reading and writing the fields of a compound userdata\<close>

definition get_compound :: "gpointer \<Rightarrow> lua_State \<Rightarrow> ud_compound option" where
  "get_compound p L =
     (case udata L p of
        Some u \<Rightarrow> (case payload u of Ud_compound c \<Rightarrow> Some c | _ \<Rightarrow> None)
      | None \<Rightarrow> None)"

definition get_function :: "gpointer \<Rightarrow> lua_State \<Rightarrow> ud_function option" where
  "get_function p L =
     (case udata L p of
        Some u \<Rightarrow> (case payload u of Ud_function f \<Rightarrow> Some f | _ \<Rightarrow> None)
      | None \<Rightarrow> None)"

definition field :: "(ud_compound \<Rightarrow> 'a option) \<Rightarrow> gpointer \<Rightarrow> lua_State \<Rightarrow> lua_error + 'a" where
  "field f p L =
     (case get_compound p L of
        Some c \<Rightarrow> (case f c of Some x \<Rightarrow> Inr x | None \<Rightarrow> Inl Fault)
      | None \<Rightarrow> Inl Fault)"

definition upd_compound ::
  "gpointer \<Rightarrow> (ud_compound \<Rightarrow> ud_compound) \<Rightarrow> lua_State \<Rightarrow> lua_State" where
  "upd_compound p f L =
     (case udata L p of
        Some u \<Rightarrow>
          (case payload u of
             Ud_compound c \<Rightarrow> L\<lparr>udata := (udata L)(p \<mapsto> u\<lparr>payload := Ud_compound (f c)\<rparr>)\<rparr>
           | _ \<Rightarrow> L)
      | None \<Rightarrow> L)"

section \<open>The identity cache\<close>

text \<open>\<^verbatim>\<open>lgi_get_cached\<close>: 0 and nothing pushed when \<open>obj\<close> is not a key of the cache.\<close>

definition lgi_get_cached :: "env \<Rightarrow> gpointer \<Rightarrow> lua_State \<Rightarrow> lua_error + (int \<times> lua_State)" where
  "lgi_get_cached E obj L =
     bindE (lua_rawgeti LUA_REGISTRYINDEX (lgi_regkey E) L) (\<lambda>L.
     bindE (lua_rawgeti (-1) (LGI_REG_CACHE E) L) (\<lambda>L.
     bindE (lua_rawget (-2) (lua_pushlightuserdata obj L)) (\<lambda>L.
     bindE (lua_replace (-3) L) (\<lambda>L.
     if lua_isnil (-1) (lua_pop 1 L) then Inr (0, lua_pop 1 (lua_pop 1 L))
     else Inr (1, lua_pop 1 L)))))"

text \<open>\<^verbatim>\<open>lgi_set_cached\<close>: binds key \<open>obj\<close> to the value on top of the stack.\<close>

definition lgi_set_cached :: "env \<Rightarrow> gpointer \<Rightarrow> lua_State \<Rightarrow> lua_error + lua_State" where
  "lgi_set_cached E obj L =
     bindE (lua_rawgeti LUA_REGISTRYINDEX (lgi_regkey E) L) (\<lambda>L.
     bindE (lua_rawgeti (-1) (LGI_REG_CACHE E) L) (\<lambda>L.
     bindE (lua_pushvalue (-4) (lua_pushlightuserdata obj L)) (\<lambda>L.
     bindE (lua_rawset (-3) L) (\<lambda>L.
     Inr (lua_pop 2 L)))))"

section \<open>The compound manager\<close>

text \<open>
  \<^verbatim>\<open>compound_prepare\<close>: checks the userdata at \<open>arg\<close> and pushes the typeinfo table and
  the repo table the compound refers to.
\<close>

definition compound_prepare :: "env \<Rightarrow> int \<Rightarrow> lua_State \<Rightarrow> lua_error + (gpointer \<times> lua_State)" where
  "compound_prepare E arg L =
     bindE (luaL_checkudata arg UD_COMPOUND L) (\<lambda>compound.
     bindE (lua_rawgeti LUA_REGISTRYINDEX (lgi_regkey E) L) (\<lambda>L.
     bindE (lua_rawgeti (-1) (LGI_REG_TYPEINFO E) L) (\<lambda>L.
     bindE (lua_replace (-2) L) (\<lambda>L.
     bindE (field ref_repo compound L) (\<lambda>r.
     bindE (lua_rawgeti (-1) r L) (\<lambda>L.
     if lua_isnil (-1) L then Inl AssertFailed else Inr (compound, L)))))))"

text \<open>
  \<^verbatim>\<open>compound_callmeta\<close>: expects the repo table just below the \<open>nargs\<close> arguments, looks
  the hook up in slot 0 of that table, and calls it when it is there.
\<close>

definition compound_callmeta ::
  "string \<Rightarrow> nat \<Rightarrow> nat \<Rightarrow> lua_State \<Rightarrow> lua_error + (bool \<times> lua_State)" where
  "compound_callmeta metaname nargs nrets L =
     bindE (lua_rawgeti (- int nargs - 1) 0 L) (\<lambda>L.
     bindE (lua_getfield (-1) metaname L) (\<lambda>L.
     bindE (lua_replace (-2) L) (\<lambda>L.
     if \<not> lua_isnil (-1) L then
       bindE (lua_insert (- int nargs - 1) L) (\<lambda>L.
       bindE (lua_call nargs nrets L) (\<lambda>L.
       Inr (True, L)))
     else if nrets \<noteq> 0 then
       Inr (False, lua_settop (lua_gettop (lua_pop (nargs + 1) L) + int nrets)
                     (lua_pop (nargs + 1) L))
     else Inr (False, lua_pop (nargs + 1) L))))"

text \<open>
  The ownership part of \<^verbatim>\<open>compound_store\<close>: what \<^verbatim>\<open>*addr\<close> and \<open>transfer\<close> are after
  the \<^verbatim>\<open>if\<close> / \<^verbatim>\<open>switch\<close> on the transfer mode and the kind of the type.
\<close>

definition compound_acquire ::
  "GIBaseInfo \<Rightarrow> gpointer \<Rightarrow> gpointer \<Rightarrow> GITransfer \<Rightarrow> lua_State
     \<Rightarrow> lua_error + (gpointer \<times> GITransfer \<times> lua_State)" where
  "compound_acquire ii compound adr transfer L =
     (if transfer = GI_TRANSFER_CONTAINER then
        Inr (compound + of_nat ud_compound_data_offset, transfer, L)
      else if transfer = GI_TRANSFER_NOTHING then
        (case g_base_info_get_type ii of
           GI_INFO_TYPE_OBJECT \<Rightarrow>
             Inr (adr, GI_TRANSFER_EVERYTHING, emit (G_object_ref adr) L)
         | GI_INFO_TYPE_STRUCT \<Rightarrow>
             bindE (lua_pushvalue (-2) L) (\<lambda>L.
             bindE (compound_callmeta ''acquire'' 1 0 L) (\<lambda>(called, L).
             Inr (adr, if called then GI_TRANSFER_EVERYTHING else transfer, L)))
         | _ \<Rightarrow> Inr (adr, transfer, L))
      else Inr (adr, transfer, L))"

text \<open>
  \<^verbatim>\<open>compound_store\<close>: the number of values pushed, the value of \<^verbatim>\<open>*addr\<close> afterwards,
  and the new state.
\<close>

definition compound_store ::
  "env \<Rightarrow> GIBaseInfo \<Rightarrow> gpointer \<Rightarrow> GITransfer \<Rightarrow> lua_State
     \<Rightarrow> lua_error + (int \<times> gpointer \<times> lua_State)" where
  "compound_store E ii adr transfer L =
     bindE (if transfer \<noteq> GI_TRANSFER_CONTAINER \<and> adr = 0 then Inr (1, lua_pushnil L)
            else lgi_get_cached E adr L) (\<lambda>(vals, L).
     if vals \<noteq> 0 then Inr (vals, adr, L)
     else
       bindE (lua_newuserdata
                (ud_compound_data_offset
                   + (if transfer = GI_TRANSFER_CONTAINER then g_struct_info_get_size ii else 0))
                (Ud_compound \<lparr>addr = None, ref_repo = None, owns = None\<rparr>) L) (\<lambda>(compound, L).
       bindE (luaL_getmetatable UD_COMPOUND L) (\<lambda>L.
       bindE (lua_setmetatable (-2) L) (\<lambda>L.
       bindE (lua_rawgeti LUA_REGISTRYINDEX (lgi_regkey E)
                (upd_compound compound (\<lambda>c. c\<lparr>ref_repo := Some LUA_REFNIL\<rparr>) L)) (\<lambda>L.
       bindE (lua_rawgeti (-1) (LGI_REG_REPO E) L) (\<lambda>L.
       bindE (lua_getfield (-1) (g_base_info_get_namespace ii) L) (\<lambda>L.
       bindE (lua_getfield (-1) (g_base_info_get_name ii) L) (\<lambda>L.
       bindE (lua_replace (-3) L) (\<lambda>L.
       bindE (lua_rawgeti (-2) (LGI_REG_TYPEINFO E) (lua_pop 1 L)) (\<lambda>L.
       bindE (lua_pushvalue (-2) L) (\<lambda>L.
       bindE (luaL_ref (-2) L) (\<lambda>(r, L).
       bindE (compound_acquire ii compound adr transfer
                (upd_compound compound (\<lambda>c. c\<lparr>ref_repo := Some r\<rparr>) L)) (\<lambda>(adr, transfer, L).
       bindE (lgi_set_cached E compound
                (lua_pop 3
                   (upd_compound compound
                      (\<lambda>c. c\<lparr>addr := Some adr,
                              owns := Some (transfer = GI_TRANSFER_EVERYTHING)\<rparr>) L))) (\<lambda>L.
       Inr (1, adr, L)))))))))))))))"

definition lgi_compound_create ::
  "env \<Rightarrow> GIBaseInfo \<Rightarrow> gpointer \<Rightarrow> GITransfer \<Rightarrow> lua_State
     \<Rightarrow> lua_error + (int \<times> gpointer \<times> lua_State)" where
  "lgi_compound_create E ii adr transfer L = compound_store E ii adr transfer L"

text \<open>\<^verbatim>\<open>compound_gc\<close>, the finalizer (\<^verbatim>\<open>__gc\<close>) of a compound; the userdata is argument 1.\<close>

definition compound_gc :: "env \<Rightarrow> lua_State \<Rightarrow> lua_error + (int \<times> lua_State)" where
  "compound_gc E L =
     bindE (compound_prepare E 1 L) (\<lambda>(compound, L).
     bindE (field owns compound L) (\<lambda>own.
     bindE (if own then
              bindE (lua_rawgeti (-1) 0 L) (\<lambda>L.
              bindE (lua_getfield (-1) ''type'' L) (\<lambda>L.
              if lua_tointeger (-1) L = info_type_code GI_INFO_TYPE_STRUCT then
                bindE (lua_pushvalue 1 (lua_pop 2 L)) (\<lambda>L.
                bindE (compound_callmeta ''dispose'' 1 0 L) (\<lambda>(called, L). Inr L))
              else if lua_tointeger (-1) L = info_type_code GI_INFO_TYPE_OBJECT then
                bindE (field addr compound L) (\<lambda>a. Inr (emit (G_object_unref a) (lua_pop 2 L)))
              else Inr (emit G_warning (lua_pop 2 L))))
            else Inr L) (\<lambda>L.
     bindE (field ref_repo compound L) (\<lambda>r.
     bindE (luaL_unref (-2) r L) (\<lambda>L.
     Inr (0, L))))))"

text \<open>
  \<^verbatim>\<open>compound_load\<close>. First the check that the value is a compound userdata (by hand
  when \<open>optional\<close>, through \<^verbatim>\<open>luaL_checkudata\<close> otherwise), then the check of the type:
  through the GType of the instance when the requested type is a derived GType, through
  the name stored in the repo table otherwise.
\<close>

definition compound_load_userdata ::
  "int \<Rightarrow> bool \<Rightarrow> lua_State \<Rightarrow> lua_error + gpointer" where
  "compound_load_userdata index optional L =
     (if optional then
        (if lua_touserdata index L = 0 then Inr 0
         else if \<not> fst (lua_getmetatable index L) then Inr 0
         else
           bindE (lua_getfield LUA_REGISTRYINDEX UD_COMPOUND (snd (lua_getmetatable index L))) (\<lambda>L'.
           if \<not> lua_rawequal (-1) (-2) L' then Inr 0 else Inr (lua_touserdata index L)))
      else luaL_checkudata index UD_COMPOUND L)"

definition compound_load ::
  "env \<Rightarrow> int \<Rightarrow> GIBaseInfo \<Rightarrow> bool \<Rightarrow> lua_State \<Rightarrow> lua_error + (gpointer \<times> lua_State)" where
  "compound_load E index ii optional L =
     bindE (compound_load_userdata index optional L) (\<lambda>compound.
     if optional \<and> compound = 0 then Inr (0, L)
     else if G_TYPE_IS_DERIVED (g_registered_type_info_get_g_type ii) then
       bindE (field addr compound L) (\<lambda>a.
       (case g_type_from_instance E a of
          None \<Rightarrow> Inl Fault
        | Some real \<Rightarrow>
            if \<not> g_type_is_a E real (g_registered_type_info_get_g_type ii) then
              (if \<not> optional then Inl (luaL_argerror index (g_type_name E real))
               else Inr (0, L))
            else Inr (a, L)))
     else
       bindE (compound_prepare E index L) (\<lambda>(compound, L).
       bindE (lua_rawgeti (-1) 0 L) (\<lambda>L.
       bindE (lua_getfield (-1) ''name'' L) (\<lambda>L.
       bindE (lua_concat 3
                (lua_pushstring (g_base_info_get_name ii)
                   (lua_pushstring ''.''
                      (lua_pushstring (g_base_info_get_namespace ii) L)))) (\<lambda>L.
       if \<not> g_strcmp0 (lua_tostring (-1) L) (lua_tostring (-2) L) then
         (if \<not> optional then
            (case lua_tostring (-1) L of
               Some s \<Rightarrow> Inl (luaL_argerror index s)
             | None \<Rightarrow> Inl Fault)
          else Inr (0, lua_pop 5 L))
       else
         bindE (field addr compound L) (\<lambda>a. Inr (a, lua_pop 5 L)))))))"

definition lgi_compound_get ::
  "env \<Rightarrow> int \<Rightarrow> GIBaseInfo \<Rightarrow> bool \<Rightarrow> lua_State \<Rightarrow> lua_error + (gpointer \<times> lua_State)" where
  "lgi_compound_get E arg ii optional L = compound_load E arg ii optional L"

section \<open>The value marshaller\<close>

definition deref_garg :: "env \<Rightarrow> gpointer \<Rightarrow> lua_error + GArgument" where
  "deref_garg E p =
     (if p = 0 then Inl Fault
      else (case garg_at E p of None \<Rightarrow> Inl Fault | Some g \<Rightarrow> Inr g))"

definition deref_garray :: "env \<Rightarrow> gpointer \<Rightarrow> lua_error + (gpointer \<times> 32 word)" where
  "deref_garray E p =
     (if p = 0 then Inl Fault
      else (case garray_at E p of None \<Rightarrow> Inl Fault | Some a \<Rightarrow> Inr a))"

definition lgi_type_get_size :: "env \<Rightarrow> GITypeTag \<Rightarrow> nat" where
  "lgi_type_get_size E tag = (case decltype E tag of Some d \<Rightarrow> ctype_size d | None \<Rightarrow> 0)"

definition lgi_simple_val_to_lua ::
  "env \<Rightarrow> GITypeTag \<Rightarrow> GITransfer \<Rightarrow> GArgument \<Rightarrow> lua_State \<Rightarrow> int \<times> lua_State" where
  "lgi_simple_val_to_lua E tag transfer val L =
     (case decltype E tag of
        Some d \<Rightarrow>
          (1, if transfer \<noteq> GI_TRANSFER_NOTHING
              then (lua_push (push d val) L)\<lparr>events := events L @ dtor d val\<rparr>
              else lua_push (push d val) L)
      | None \<Rightarrow> (0, L))"

text \<open>
  \<^verbatim>\<open>gint offset = index * size\<close>: the product is taken in \<^verbatim>\<open>gsize\<close>, cut to 32 bits,
  and sign-extended again when it is added to the pointer.
\<close>

definition element_offset :: "int \<Rightarrow> nat \<Rightarrow> 64 word" where
  "element_offset index sz = scast (ucast (word_of_int index * (of_nat sz :: 64 word)) :: 32 word)"

definition element_address ::
  "env \<Rightarrow> GIArrayType \<Rightarrow> gpointer \<Rightarrow> int \<Rightarrow> nat \<Rightarrow> lua_error + gpointer" where
  "element_address E atype p index sz =
     (if atype = GI_ARRAY_TYPE_C then Inr (p + element_offset index sz)
      else if atype = GI_ARRAY_TYPE_ARRAY then
        bindE (deref_garray E p) (\<lambda>(d, l). Inr (d + element_offset index sz))
      else Inl Fault)"

text \<open>
  \<^verbatim>\<open>lgi_val_to_lua\<close> and \<^verbatim>\<open>lgi_array_to_lua\<close> call each other, and the loop of the
  latter need not end, so the three functions take an iteration budget that every call
  and every turn of the loop decrements. \<^verbatim>\<open>lgi_val_to_lua\<close> returns the number of values
  pushed, the slot as the call leaves it, and the state; the loop returns the final
  \<^verbatim>\<open>index\<close>. The element a turn of the loop looks at is read before it is marshalled.
\<close>

fun lgi_val_to_lua ::
    "nat \<Rightarrow> env \<Rightarrow> GITypeInfo \<Rightarrow> GITransfer \<Rightarrow> GArgument \<Rightarrow> lua_State
       \<Rightarrow> lua_error + (int \<times> GArgument \<times> lua_State)"
  and lgi_array_to_lua ::
    "nat \<Rightarrow> env \<Rightarrow> GITypeInfo \<Rightarrow> GITransfer \<Rightarrow> GArgument \<Rightarrow> lua_State
       \<Rightarrow> lua_error + (int \<times> lua_State)"
  and lgi_array_loop ::
    "nat \<Rightarrow> env \<Rightarrow> GITypeInfo \<Rightarrow> GIArrayType \<Rightarrow> bool \<Rightarrow> GITransfer \<Rightarrow> gpointer \<Rightarrow> nat
       \<Rightarrow> int \<Rightarrow> int \<Rightarrow> lua_State \<Rightarrow> lua_error + (int \<times> lua_State)"
where
  "lgi_val_to_lua 0 E ti transfer val L = Inl OutOfFuel"
| "lgi_val_to_lua (Suc n) E ti transfer val L =
     (if fst (lgi_simple_val_to_lua E (g_type_info_get_tag ti) transfer val L) \<noteq> 0 then
        Inr (fst (lgi_simple_val_to_lua E (g_type_info_get_tag ti) transfer val L), val,
             snd (lgi_simple_val_to_lua E (g_type_info_get_tag ti) transfer val L))
      else if g_type_info_get_tag ti = GI_TYPE_TAG_INTERFACE then
        (case g_type_info_get_interface ti of
           None \<Rightarrow> Inl Fault
         | Some ii \<Rightarrow>
             if g_base_info_get_type ii = GI_INFO_TYPE_ENUM
                \<or> g_base_info_get_type ii = GI_INFO_TYPE_FLAGS then
               Inr (fst (lgi_simple_val_to_lua E (g_enum_info_get_storage_type ii)
                           GI_TRANSFER_NOTHING val L), val,
                    snd (lgi_simple_val_to_lua E (g_enum_info_get_storage_type ii)
                           GI_TRANSFER_NOTHING val L))
             else if g_base_info_get_type ii = GI_INFO_TYPE_STRUCT
                \<or> g_base_info_get_type ii = GI_INFO_TYPE_OBJECT then
               compound_store E ii val transfer L
             else Inr (0, val, L))
      else if g_type_info_get_tag ti = GI_TYPE_TAG_ARRAY then
        bindE (lgi_array_to_lua n E ti transfer val L) (\<lambda>(vals, L). Inr (vals, val, L))
      else Inr (0, val, L))"
| "lgi_array_to_lua 0 E ti transfer val L = Inl OutOfFuel"
| "lgi_array_to_lua (Suc n) E ti transfer val L =
     (case g_type_info_get_param_type ti of
        None \<Rightarrow> Inl Fault
      | Some eti \<Rightarrow>
          bindE (if g_type_info_get_array_type ti = GI_ARRAY_TYPE_ARRAY
                 then bindE (deref_garray E val) (\<lambda>(d, l). Inr (sint l))
                 else Inr (g_type_info_get_array_fixed_size ti)) (\<lambda>len.
          if val = 0 then Inr (1, lua_pushnil L)
          else
            bindE (lgi_array_loop n E eti (g_type_info_get_array_type ti)
                     (g_type_info_is_zero_terminated ti)
                     (if transfer = GI_TRANSFER_EVERYTHING
                      then GI_TRANSFER_EVERYTHING else GI_TRANSFER_NOTHING)
                     val (lgi_type_get_size E (g_type_info_get_tag eti)) len 0
                     (lua_createtable L)) (\<lambda>(index, L).
            if transfer \<noteq> GI_TRANSFER_NOTHING then
              (if g_type_info_get_array_type ti = GI_ARRAY_TYPE_C
                 then Inr (1, emit (G_free val) L)
               else if g_type_info_get_array_type ti = GI_ARRAY_TYPE_ARRAY
                 then Inr (1, emit (G_array_unref val) L)
               else Inr (1, L))
            else Inr (1, L))))"
| "lgi_array_loop 0 E eti atype zero_terminated realTransfer p sz len index L = Inl OutOfFuel"
| "lgi_array_loop (Suc n) E eti atype zero_terminated realTransfer p sz len index L =
     (if len < 0 \<or> index < len then
        bindE (element_address E atype p index sz) (\<lambda>ea.
        bindE (deref_garg E ea) (\<lambda>eval.
        if zero_terminated \<and> eval = 0 then Inr (index, L)
        else
          bindE (lgi_val_to_lua n E eti realTransfer eval L) (\<lambda>(vals, eval', L).
          bindE (if vals = 1 then lua_rawseti (-2) (index + 1) L else Inr L) (\<lambda>L.
          lgi_array_loop n E eti atype zero_terminated realTransfer p sz len (index + 1) L))))
      else Inr (index, L))"

text \<open>
  \<^verbatim>\<open>val->argf = x\<close> assigns one member of the union \<^verbatim>\<open>GArgument\<close>: the first
  \<^verbatim>\<open>sizeof(ctype)\<close> bytes of the slot, which on a little-endian target are the low
  ones; the other bytes of the slot keep what they held.
\<close>

definition assign_member :: "nat \<Rightarrow> GArgument \<Rightarrow> GArgument \<Rightarrow> GArgument" where
  "assign_member sz val x = (val AND NOT (mask (8 * sz))) OR (x AND mask (8 * sz))"

definition lgi_simple_val_from_lua ::
  "env \<Rightarrow> int \<Rightarrow> GITypeTag \<Rightarrow> GArgument \<Rightarrow> bool \<Rightarrow> lua_State \<Rightarrow> lua_error + (int \<times> GArgument)" where
  "lgi_simple_val_from_lua E index tag val optional L =
     (case decltype E tag of
        Some d \<Rightarrow>
          if optional \<and> lua_isnoneornil index L
          then Inr (1, assign_member (ctype_size d) val 0)
          else bindE (check d L index) (\<lambda>g. Inr (1, assign_member (ctype_size d) val g))
      | None \<Rightarrow> Inr (0, val))"

definition lgi_val_from_lua ::
  "env \<Rightarrow> int \<Rightarrow> GITypeInfo \<Rightarrow> GArgument \<Rightarrow> bool \<Rightarrow> lua_State
     \<Rightarrow> lua_error + (int \<times> GArgument \<times> lua_State)" where
  "lgi_val_from_lua E index ti val optional L =
     bindE (lgi_simple_val_from_lua E index (g_type_info_get_tag ti) val optional L) (\<lambda>(vals, val).
     if vals = 0 \<and> g_type_info_get_tag ti = GI_TYPE_TAG_INTERFACE then
       (case g_type_info_get_interface ti of
          None \<Rightarrow> Inl Fault
        | Some ii \<Rightarrow>
            if g_base_info_get_type ii = GI_INFO_TYPE_ENUM
               \<or> g_base_info_get_type ii = GI_INFO_TYPE_FLAGS then
              bindE (lgi_simple_val_from_lua E index (g_enum_info_get_storage_type ii)
                       val optional L) (\<lambda>(vals, val). Inr (vals, val, L))
            else if g_base_info_get_type ii = GI_INFO_TYPE_STRUCT
               \<or> g_base_info_get_type ii = GI_INFO_TYPE_OBJECT then
              bindE (compound_load E index ii optional L) (\<lambda>(a, L). Inr (1, a, L))
            else Inr (vals, val, L))
     else Inr (vals, val, L))"

section \<open>Generic values\<close>

definition luaL_checkinteger :: "int \<Rightarrow> lua_State \<Rightarrow> lua_error + int" where
  "luaL_checkinteger narg L =
     (case index2adr L narg of
        Some (LNumber n) \<Rightarrow> Inr n
      | Some (LString _) \<Rightarrow> Inl NotModelled
      | _ \<Rightarrow> Inl (luaL_typerror narg ''number'' L))"

definition g_value_set_enum :: "GValue \<Rightarrow> int \<Rightarrow> GValue" where
  "g_value_set_enum v n = v\<lparr>data := word_of_int n\<rparr>"

definition g_value_get_enum :: "GValue \<Rightarrow> int" where
  "g_value_get_enum v = sint (ucast (data v) :: 32 word)"

definition g_value_set_flags :: "GValue \<Rightarrow> int \<Rightarrow> GValue" where
  "g_value_set_flags v n = v\<lparr>data := word_of_int n\<rparr>"

definition g_value_get_flags :: "GValue \<Rightarrow> int" where
  "g_value_get_flags v = uint (ucast (data v) :: 32 word)"

text \<open>
  \<^verbatim>\<open>value_load\<close>: sets a \<^verbatim>\<open>GValue\<close> from the Lua value at \<open>narg\<close>. The \<^verbatim>\<open>switch\<close> has
  the rows of the scalar table, the case \<^verbatim>\<open>GI_TYPE_TAG_INTERFACE\<close> and a default; the
  labels of a \<^verbatim>\<open>switch\<close> are distinct, so the interface case is looked at first here.
\<close>

definition value_load ::
  "env \<Rightarrow> GValue \<Rightarrow> int \<Rightarrow> GITypeInfo \<Rightarrow> lua_State \<Rightarrow> lua_error + (int \<times> GValue \<times> lua_State)" where
  "value_load E val narg ti L =
     (if g_type_info_get_tag ti = GI_TYPE_TAG_INTERFACE then
        (case g_type_info_get_interface ti of
           None \<Rightarrow> Inl Fault
         | Some ii \<Rightarrow>
             if g_base_info_get_type ii = GI_INFO_TYPE_ENUM then
               bindE (luaL_checkinteger narg L) (\<lambda>n. Inr (1, g_value_set_enum val n, L))
             else if g_base_info_get_type ii = GI_INFO_TYPE_FLAGS then
               bindE (luaL_checkinteger narg L) (\<lambda>n. Inr (1, g_value_set_flags val n, L))
             else if g_base_info_get_type ii = GI_INFO_TYPE_OBJECT then
               bindE (compound_load E narg ii False L) (\<lambda>(a, L).
               Inr (1, val\<lparr>data := a\<rparr>, if a \<noteq> 0 then emit (G_object_ref a) L else L))
             else if g_base_info_get_type ii = GI_INFO_TYPE_STRUCT then
               Inl (LuaError ''don't know how to handle struct->GValue'')
             else Inr (0, val, L))
      else
        (case decltype E (g_type_info_get_tag ti) of
           Some d \<Rightarrow> bindE (check d L narg) (\<lambda>g. Inr (1, val_set d val g, L))
         | None \<Rightarrow> Inr (0, val, L)))"

text \<open>\<^verbatim>\<open>value_store\<close>: pushes the contents of a \<^verbatim>\<open>GValue\<close>.\<close>

definition value_store ::
  "env \<Rightarrow> GValue \<Rightarrow> GITypeInfo \<Rightarrow> lua_State \<Rightarrow> lua_error + (int \<times> lua_State)" where
  "value_store E val ti L =
     (if g_type_info_get_tag ti = GI_TYPE_TAG_INTERFACE then
        (case g_type_info_get_interface ti of
           None \<Rightarrow> Inl Fault
         | Some ii \<Rightarrow>
             if g_base_info_get_type ii = GI_INFO_TYPE_ENUM then
               Inr (1, lua_pushinteger (g_value_get_enum val) L)
             else if g_base_info_get_type ii = GI_INFO_TYPE_FLAGS then
               Inr (1, lua_pushinteger (g_value_get_flags val) L)
             else if g_base_info_get_type ii = GI_INFO_TYPE_OBJECT then
               bindE (compound_store E ii (data val) GI_TRANSFER_EVERYTHING
                        (if data val \<noteq> 0 then emit (G_object_ref (data val)) L else L))
                 (\<lambda>(vals, a, L). Inr (vals, L))
             else if g_base_info_get_type ii = GI_INFO_TYPE_STRUCT then
               Inl (LuaError ''don't know how to handle GValue->struct'')
             else Inr (0, L))
      else
        (case decltype E (g_type_info_get_tag ti) of
           Some d \<Rightarrow> Inr (1, lua_push (push d (val_get d val)) L)
         | None \<Rightarrow> Inr (0, L)))"

section \<open>The call invoker\<close>

text \<open>\<^verbatim>\<open>lgi_error\<close>: the value-level failure result.\<close>

definition lgi_error :: "GError option \<Rightarrow> lua_State \<Rightarrow> int \<times> lua_State" where
  "lgi_error err L =
     (case err of
        Some e \<Rightarrow>
          (3, emit G_error_free
                (lua_pushinteger (code e) (lua_pushstring (message e) (lua_pushboolean False L))))
      | None \<Rightarrow> (1, lua_pushboolean False L))"

text \<open>\<^verbatim>\<open>lgi_type_new\<close>: instantiates what a descriptor describes.\<close>

definition lgi_type_new ::
  "nat \<Rightarrow> env \<Rightarrow> GIBaseInfo \<Rightarrow> GArgument \<Rightarrow> lua_State
     \<Rightarrow> lua_error + (int \<times> GArgument \<times> lua_State)" where
  "lgi_type_new fuel E ii val L =
     (if g_base_info_get_type ii = GI_INFO_TYPE_FUNCTION then
        bindE (lgi_callable_create E ii L) (\<lambda>(vals, L). Inr (vals, val, L))
      else if g_base_info_get_type ii = GI_INFO_TYPE_STRUCT
         \<or> g_base_info_get_type ii = GI_INFO_TYPE_OBJECT then
        compound_store E ii val GI_TRANSFER_CONTAINER L
      else if g_base_info_get_type ii = GI_INFO_TYPE_CONSTANT then
        bindE (lgi_val_to_lua fuel E (g_constant_info_get_type E ii) GI_TRANSFER_NOTHING
                 (g_constant_info_get_value E ii) L) (\<lambda>(vals, v, L). Inr (vals, val, L))
      else Inr (0, val, L))"

text \<open>
  The two loops of \<^verbatim>\<open>function_call\<close> over the declared arguments. \<open>args\<close> is the array
  of argument slots (a function of the position: the code never reads past the slots it
  allocated), \<open>ffi_argi\<close> the slot of the argument at hand, \<open>lua_argi\<close> the Lua stack
  position read next (first loop) or the number of results so far (second loop).
\<close>

fun function_call_in ::
  "nat \<Rightarrow> env \<Rightarrow> GIArgInfo list \<Rightarrow> (nat \<Rightarrow> GArgument) \<Rightarrow> int \<Rightarrow> nat \<Rightarrow> lua_State
     \<Rightarrow> lua_error + ((nat \<Rightarrow> GArgument) \<times> nat \<times> lua_State)" where
  "function_call_in fuel E [] args lua_argi ffi_argi L = Inr (args, ffi_argi, L)"
| "function_call_in fuel E (ai # ais) args lua_argi ffi_argi L =
     (if g_arg_info_get_direction ai = GI_DIRECTION_IN
         \<or> g_arg_info_get_direction ai = GI_DIRECTION_INOUT then
        bindE (lgi_val_from_lua E lua_argi (g_arg_info_load_type ai) (args ffi_argi)
                 (g_arg_info_is_optional ai \<or> g_arg_info_may_be_null ai) L) (\<lambda>(vals, g, L).
        function_call_in fuel E ais (args(ffi_argi := g)) (lua_argi + vals) (Suc ffi_argi) L)
      else if g_arg_info_is_caller_allocates ai then
        (case g_type_info_get_interface (g_arg_info_load_type ai) of
           None \<Rightarrow> Inl Fault
         | Some ii \<Rightarrow>
             bindE (lgi_type_new fuel E ii (args ffi_argi) L) (\<lambda>(vals, g, L).
             function_call_in fuel E ais (args(ffi_argi := g)) lua_argi (Suc ffi_argi) L))
      else function_call_in fuel E ais args lua_argi (Suc ffi_argi) L)"

fun function_call_out ::
  "nat \<Rightarrow> env \<Rightarrow> GIArgInfo list \<Rightarrow> (nat \<Rightarrow> GArgument) \<Rightarrow> int \<Rightarrow> nat \<Rightarrow> lua_State
     \<Rightarrow> lua_error + (int \<times> lua_State)" where
  "function_call_out fuel E [] args lua_argi ffi_argi L = Inr (lua_argi, L)"
| "function_call_out fuel E (ai # ais) args lua_argi ffi_argi L =
     (if g_arg_info_get_direction ai = GI_DIRECTION_OUT
         \<or> g_arg_info_get_direction ai = GI_DIRECTION_INOUT then
        bindE (lgi_val_to_lua fuel E (g_arg_info_load_type ai)
                 (g_arg_info_get_ownership_transfer ai) (args ffi_argi) L) (\<lambda>(vals, g, L).
        function_call_out fuel E ais (args(ffi_argi := g)) (lua_argi + vals) (Suc ffi_argi) L)
      else function_call_out fuel E ais args lua_argi (Suc ffi_argi) L)"

text \<open>
  \<^verbatim>\<open>function_call\<close>, the \<^verbatim>\<open>__call\<close> of a function userdata: the userdata is argument 1,
  the arguments of the call follow. The result is the number of values returned (the
  topmost ones of the stack). The array has \<open>argffi\<close> slots; slot 0 is the return slot
  and the slots from 1 on are the argument values of the native call. The slot of an
  output argument that the caller does not allocate is not written before the call, and
  no slot but the return slot is written by it.
\<close>

definition function_call :: "nat \<Rightarrow> env \<Rightarrow> lua_State \<Rightarrow> lua_error + (int \<times> lua_State)" where
  "function_call fuel E L =
     bindE (luaL_checkudata 1 UD_FUNCTION L) (\<lambda>p.
     (case get_function p L of
        None \<Rightarrow> Inl Fault
      | Some function \<Rightarrow>
          let flags = g_function_info_get_flags (info function);
              has_self = (flags AND GI_FUNCTION_IS_METHOD \<noteq> 0
                          \<and> flags AND GI_FUNCTION_IS_CONSTRUCTOR = 0);
              throws = (flags AND GI_FUNCTION_THROWS \<noteq> 0);
              argffi = length (g_callable_info_args (info function)) + 1
                         + (if has_self then 1 else 0) + (if throws then 1 else 0);
              args = g_newa E
          in
          bindE (if has_self then
                   (case g_base_info_get_container (info function) of
                      None \<Rightarrow> Inl Fault
                    | Some pi \<Rightarrow>
                        bindE (compound_load E 2 pi True L) (\<lambda>(a, L).
                        Inr (args(1 := a), 3, 2, L)))
                 else Inr (args, 2, 1, L)) (\<lambda>(args, lua_argi, ffi_argi, L).
          bindE (function_call_in fuel E (g_callable_info_args (info function))
                   args lua_argi ffi_argi L) (\<lambda>(args, ffi_argi, L).
          (case ffi_call E (invoker function) (args 0)
                  (map (if throws then args(ffi_argi := address_of_err E) else args)
                     [1..<argffi]) of
             (ret, err) \<Rightarrow>
               if err \<noteq> None then Inr (lgi_error err L)
               else
                 bindE (lgi_val_to_lua fuel E (g_callable_info_load_return_type (info function))
                          (g_callable_info_get_caller_owns (info function)) ret L)
                   (\<lambda>(vals, g, L).
                 function_call_out fuel E (g_callable_info_args (info function))
                   ((if throws then args(ffi_argi := address_of_err E) else args)(0 := g))
                   vals (if has_self then 2 else 1) L))))))"

section \<open>Symbol resolution\<close>

definition luaL_checkstring :: "int \<Rightarrow> lua_State \<Rightarrow> lua_error + string" where
  "luaL_checkstring narg L =
     (case index2adr L narg of
        Some (LString s) \<Rightarrow> Inr s
      | Some (LNumber _) \<Rightarrow> Inl NotModelled
      | _ \<Rightarrow> Inl (luaL_typerror narg ''string'' L))"

definition luaL_optstring :: "int \<Rightarrow> lua_State \<Rightarrow> lua_error + string option" where
  "luaL_optstring narg L =
     (if lua_isnoneornil narg L then Inr None
      else bindE (luaL_checkstring narg L) (\<lambda>s. Inr (Some s)))"

text \<open>
  \<^verbatim>\<open>lgi_find\<close>, exported as \<^verbatim>\<open>core.find(symbol, container)\<close>. \<open>find_info\<close> is the
  lookup in the catalog: the symbol itself, or the method of that name of the container.
\<close>

definition find_info :: "env \<Rightarrow> string \<Rightarrow> string option \<Rightarrow> lua_error + gpointer" where
  "find_info E symbol container =
     (case container of
        None \<Rightarrow> Inr (g_irepository_find_by_name E ''GIRepository'' symbol)
      | Some c \<Rightarrow>
          if g_irepository_find_by_name E ''GIRepository'' c = 0 then Inr 0
          else
            (case info_at E (g_irepository_find_by_name E ''GIRepository'' c) of
               None \<Rightarrow> Inl Fault
             | Some ci \<Rightarrow>
                 if g_base_info_get_type ci = GI_INFO_TYPE_OBJECT then
                   Inr (g_object_info_find_method E
                          (g_irepository_find_by_name E ''GIRepository'' c) symbol)
                 else if g_base_info_get_type ci = GI_INFO_TYPE_INTERFACE then
                   Inr (g_interface_info_find_method E
                          (g_irepository_find_by_name E ''GIRepository'' c) symbol)
                 else if g_base_info_get_type ci = GI_INFO_TYPE_STRUCT then
                   Inr (g_struct_info_find_method E
                          (g_irepository_find_by_name E ''GIRepository'' c) symbol)
                 else Inr 0))"

definition unresolved_message :: "string \<Rightarrow> string option \<Rightarrow> string" where
  "unresolved_message symbol container =
     ''unable to resolve GIRepository.''
       @ (case container of Some c \<Rightarrow> c | None \<Rightarrow> [])
       @ (case container of Some c \<Rightarrow> '':'' | None \<Rightarrow> [])
       @ symbol"

definition lgi_find :: "env \<Rightarrow> lua_State \<Rightarrow> lua_error + (int \<times> lua_State)" where
  "lgi_find E L =
     bindE (luaL_checkstring 1 L) (\<lambda>symbol.
     bindE (luaL_optstring 2 L) (\<lambda>container.
     bindE (find_info E symbol container) (\<lambda>found.
     if found = 0 then
       Inr (2, lua_pushstring (unresolved_message symbol container) (lua_pushboolean False L))
     else
       (case info_at E (lgi_baseinfo_info E) of
          None \<Rightarrow> Inl Fault
        | Some bi \<Rightarrow>
            bindE (compound_store E bi found GI_TRANSFER_EVERYTHING L) (\<lambda>(vals, a, L).
            Inr (vals, L))))))"

section \<open>Predicates of the statements\<close>

text \<open>
  The layout of the registry that \<^verbatim>\<open>luaopen_lgi__core\<close> sets up, as far as
  \<^verbatim>\<open>compound_store\<close> reads it for the type \<open>ii\<close>: the private table \<open>reg\<close> under
  \<open>lgi_regkey\<close>, in it the cache, the repo table and the typeinfo table, and in the repo
  table the table \<open>nsT\<close> of the namespace of \<open>ii\<close>; the six tables are different
  tables.
\<close>

definition layout ::
  "env \<Rightarrow> lua_State \<Rightarrow> GIBaseInfo \<Rightarrow> nat \<Rightarrow> nat \<Rightarrow> nat \<Rightarrow> nat \<Rightarrow> nat \<Rightarrow> bool" where
  "layout E L ii reg cache repo nsT typeinfo =
     (tget (tables L registry) (LNumber (lgi_regkey E)) = LTable reg
      \<and> tget (tables L reg) (LNumber (LGI_REG_CACHE E)) = LTable cache
      \<and> tget (tables L reg) (LNumber (LGI_REG_REPO E)) = LTable repo
      \<and> tget (tables L repo) (LString (g_base_info_get_namespace ii)) = LTable nsT
      \<and> tget (tables L reg) (LNumber (LGI_REG_TYPEINFO E)) = LTable typeinfo
      \<and> distinct [registry, reg, cache, repo, nsT, typeinfo])"


section \<open>An example world\<close>

text \<open>
  Modelled from the spec: three rows of the scalar table of \<^verbatim>\<open>decltype.h\<close> (the file is
  not among the sources), as the Scalar Codec of the spec describes them: a 32-bit
  integer and a boolean are pushed as a number and a boolean and never released, a
  string is pushed as a Lua string and released with \<^verbatim>\<open>g_free\<close> when ownership was
  transferred. \<open>cstring_at\<close> is the text stored at an address of the example memory.
\<close>

definition lua_toboolean :: "int \<Rightarrow> lua_State \<Rightarrow> bool" where
  "lua_toboolean idx L =
     (case index2adr L idx of
        None \<Rightarrow> False | Some LNil \<Rightarrow> False | Some (LBoolean b) \<Rightarrow> b | Some _ \<Rightarrow> True)"

definition decl_int32 :: decl where
  "decl_int32 =
     \<lparr>ctype_size = 4,
      push = (\<lambda>g. LNumber (sint (ucast g :: 32 word))),
      dtor = (\<lambda>g. []),
      check = (\<lambda>L i. bindE (luaL_checkinteger i L) (\<lambda>n. Inr (ucast (word_of_int n :: 32 word)))),
      val_get = data,
      val_set = (\<lambda>v g. v\<lparr>data := g\<rparr>)\<rparr>"

definition decl_boolean :: decl where
  "decl_boolean =
     \<lparr>ctype_size = 4,
      push = (\<lambda>g. LBoolean ((ucast g :: 32 word) \<noteq> 0)),
      dtor = (\<lambda>g. []),
      check = (\<lambda>L i. Inr (if lua_toboolean i L then 1 else 0)),
      val_get = data,
      val_set = (\<lambda>v g. v\<lparr>data := g\<rparr>)\<rparr>"

definition cstring_at :: "gpointer \<Rightarrow> string option" where
  "cstring_at = map_of [(0x4000, ''foo''), (0x4010, ''bar''), (0x4020, ''baz'')]"

definition decl_utf8 :: decl where
  "decl_utf8 =
     \<lparr>ctype_size = 8,
      push = (\<lambda>g. case cstring_at g of Some s \<Rightarrow> LString s | None \<Rightarrow> LNil),
      dtor = (\<lambda>g. [G_free g]),
      check = (\<lambda>L i. Inl NotModelled),
      val_get = data,
      val_set = (\<lambda>v g. v\<lparr>data := g\<rparr>)\<rparr>"

definition decltype0 :: "GITypeTag \<Rightarrow> decl option" where
  "decltype0 tag =
     (if tag = GI_TYPE_TAG_INT32 then Some decl_int32
      else if tag = GI_TYPE_TAG_BOOLEAN then Some decl_boolean
      else if tag = GI_TYPE_TAG_UTF8 then Some decl_utf8
      else None)"

text \<open>
  Descriptors of the example: the object type \<open>Gtk.Window\<close> (a derived GType), the
  plain structures \<open>Gtk.Border\<close> and \<open>Gtk.Requisition\<close> (no GType), the fundamental
  object type \<open>GObject.Object\<close>, the enumeration \<open>Gtk.Align\<close>, and
  \<open>GIRepository.IBaseInfo\<close>, the type of the descriptors themselves.
\<close>

definition G_TYPE_NONE :: GType where "G_TYPE_NONE = 4"
definition G_TYPE_OBJECT :: GType where "G_TYPE_OBJECT = 80"
definition GTK_TYPE_WINDOW :: GType where "GTK_TYPE_WINDOW = 2000"

definition Window :: GIBaseInfo where
  "Window = \<lparr>g_base_info_get_type = GI_INFO_TYPE_OBJECT, g_base_info_get_namespace = ''Gtk'',
     g_base_info_get_name = ''Window'', g_enum_info_get_storage_type = GI_TYPE_TAG_VOID,
     g_struct_info_get_size = 0, g_registered_type_info_get_g_type = GTK_TYPE_WINDOW\<rparr>"

definition Object :: GIBaseInfo where
  "Object = \<lparr>g_base_info_get_type = GI_INFO_TYPE_OBJECT, g_base_info_get_namespace = ''GObject'',
     g_base_info_get_name = ''Object'', g_enum_info_get_storage_type = GI_TYPE_TAG_VOID,
     g_struct_info_get_size = 0, g_registered_type_info_get_g_type = G_TYPE_OBJECT\<rparr>"

definition Border :: GIBaseInfo where
  "Border = \<lparr>g_base_info_get_type = GI_INFO_TYPE_STRUCT, g_base_info_get_namespace = ''Gtk'',
     g_base_info_get_name = ''Border'', g_enum_info_get_storage_type = GI_TYPE_TAG_VOID,
     g_struct_info_get_size = 8, g_registered_type_info_get_g_type = G_TYPE_NONE\<rparr>"

definition Requisition :: GIBaseInfo where
  "Requisition = \<lparr>g_base_info_get_type = GI_INFO_TYPE_STRUCT, g_base_info_get_namespace = ''Gtk'',
     g_base_info_get_name = ''Requisition'', g_enum_info_get_storage_type = GI_TYPE_TAG_VOID,
     g_struct_info_get_size = 8, g_registered_type_info_get_g_type = G_TYPE_NONE\<rparr>"

definition Align :: GIBaseInfo where
  "Align = \<lparr>g_base_info_get_type = GI_INFO_TYPE_ENUM, g_base_info_get_namespace = ''Gtk'',
     g_base_info_get_name = ''Align'', g_enum_info_get_storage_type = GI_TYPE_TAG_INT32,
     g_struct_info_get_size = 0, g_registered_type_info_get_g_type = G_TYPE_NONE\<rparr>"

definition IBaseInfo :: GIBaseInfo where
  "IBaseInfo = \<lparr>g_base_info_get_type = GI_INFO_TYPE_STRUCT,
     g_base_info_get_namespace = ''GIRepository'', g_base_info_get_name = ''IBaseInfo'',
     g_enum_info_get_storage_type = GI_TYPE_TAG_VOID,
     g_struct_info_get_size = 0, g_registered_type_info_get_g_type = G_TYPE_NONE\<rparr>"

definition scalar :: "GITypeTag \<Rightarrow> GITypeInfo" where
  "scalar tag = GITypeInfo tag None (-1) GI_ARRAY_TYPE_C False None"

definition interface :: "GIBaseInfo \<Rightarrow> GITypeInfo" where
  "interface ii = GITypeInfo GI_TYPE_TAG_INTERFACE (Some ii) (-1) GI_ARRAY_TYPE_C False None"

definition array_of :: "GITypeInfo \<Rightarrow> int \<Rightarrow> GIArrayType \<Rightarrow> bool \<Rightarrow> GITypeInfo" where
  "array_of eti fixed atype zt = GITypeInfo GI_TYPE_TAG_ARRAY None fixed atype zt (Some eti)"

text \<open>
  The callable of the example: \<open>(in: int32, out: int32) -> boolean\<close>, may throw. Its
  native code at \<open>0x9000\<close> returns \<open>true\<close> and stores \<open>10\<close> through the pointer it
  gets as its second argument; the one at \<open>0x9100\<close> fails with message \<open>bad\<close>, code
  \<open>7\<close>. The fresh argument array of the example holds \<open>0xAAAAAAAA55555555\<close> in every
  slot.
\<close>

definition in_int32 :: GIArgInfo where
  "in_int32 = \<lparr>g_arg_info_get_direction = GI_DIRECTION_IN,
     g_arg_info_load_type = scalar GI_TYPE_TAG_INT32,
     g_arg_info_is_optional = False, g_arg_info_may_be_null = False,
     g_arg_info_is_caller_allocates = False,
     g_arg_info_get_ownership_transfer = GI_TRANSFER_NOTHING\<rparr>"

definition out_int32 :: GIArgInfo where
  "out_int32 = \<lparr>g_arg_info_get_direction = GI_DIRECTION_OUT,
     g_arg_info_load_type = scalar GI_TYPE_TAG_INT32,
     g_arg_info_is_optional = False, g_arg_info_may_be_null = False,
     g_arg_info_is_caller_allocates = False,
     g_arg_info_get_ownership_transfer = GI_TRANSFER_EVERYTHING\<rparr>"

definition callable0 :: GIFunctionInfo where
  "callable0 = \<lparr>g_function_info_get_flags = GI_FUNCTION_THROWS,
     g_callable_info_args = [in_int32, out_int32],
     g_callable_info_load_return_type = scalar GI_TYPE_TAG_BOOLEAN,
     g_callable_info_get_caller_owns = GI_TRANSFER_NOTHING,
     g_base_info_get_container = None\<rparr>"

definition ffi_call0 ::
  "gpointer \<Rightarrow> GArgument \<Rightarrow> GArgument list \<Rightarrow> GArgument \<times> GError option" where
  "ffi_call0 fn ret vals =
     (if fn = 0x9000 then (1, None)
      else if fn = 0x9100 then (0, Some \<lparr>message = ''bad'', code = 7\<rparr>)
      else (ret, None))"

text \<open>
  Native memory of the example: at \<open>0x5000\<close> four string pointers, the third one null;
  at \<open>0x6000\<close> four object pointers, the third one null; at \<open>0x7100\<close> a \<^verbatim>\<open>GArray\<close> of
  length two over the strings. \<open>0x1000\<close>, \<open>0x1100\<close> and \<open>0x1200\<close> are windows.
\<close>

definition E0 :: env where
  "E0 = \<lparr>lgi_regkey = 1, LGI_REG_CACHE = 1, LGI_REG_TYPEINFO = 2, LGI_REG_REPO = 3,
     lgi_baseinfo_info = 0x500,
     decltype = decltype0,
     garg_at = map_of [(0x5000, 0x4000), (0x5008, 0x4010), (0x5010, 0), (0x5018, 0x4020),
                       (0x6000, 0x1000), (0x6008, 0x1100), (0x6010, 0), (0x6018, 0x1200)],
     garray_at = map_of [(0x7100, (0x5000, 2))],
     g_type_from_instance = map_of [(0x1000, GTK_TYPE_WINDOW), (0x1100, GTK_TYPE_WINDOW),
                                    (0x1200, GTK_TYPE_WINDOW)],
     g_type_is_a = (\<lambda>a b. a = b \<or> (a = GTK_TYPE_WINDOW \<and> b = G_TYPE_OBJECT)),
     g_type_name = (\<lambda>t. if t = GTK_TYPE_WINDOW then ''GtkWindow''
                         else if t = G_TYPE_OBJECT then ''GObject'' else []),
     g_newa = (\<lambda>n. 0xAAAAAAAA55555555), address_of_err = 0x7000,
     ffi_call = ffi_call0,
     info_at = map_of [(0x500, IBaseInfo), (0x600, Window), (0x700, Align)],
     g_irepository_find_by_name =
       (\<lambda>ns name. if ns = ''GIRepository'' \<and> name = ''IBaseInfo'' then 0x500
                   else if ns = ''GIRepository'' \<and> name = ''Window'' then 0x600
                   else if ns = ''GIRepository'' \<and> name = ''Align'' then 0x700
                   else 0),
     g_object_info_find_method = (\<lambda>p name. if p = 0x600 \<and> name = ''present'' then 0x610 else 0),
     g_interface_info_find_method = (\<lambda>p name. 0),
     g_struct_info_find_method = (\<lambda>p name. 0),
     g_constant_info_get_type = (\<lambda>ii. scalar GI_TYPE_TAG_VOID),
     g_constant_info_get_value = (\<lambda>ii. 0),
     lgi_callable_create = (\<lambda>ii L. Inl NotModelled)\<rparr>"

text \<open>
  The Lua side, as \<^verbatim>\<open>luaopen_lgi__core\<close> and the Lua part of the binding leave it:
  table 0 is the registry with the two metatables (1, 2) and the private table (3) under
  \<open>lgi_regkey\<close>; 4 is the cache, 5 the typeinfo table, 6 the repo table with the
  namespaces \<open>Gtk\<close> (7), \<open>GObject\<close> (12) and \<open>GIRepository\<close> (15). The repo
  table of \<open>Gtk.Border\<close> (10) declares the hooks \<open>acquire\<close> and \<open>dispose\<close>; that of
  \<open>Gtk.Requisition\<close> (18) declares none.
\<close>

definition heap0 :: "nat \<Rightarrow> lua_table" where
  "heap0 = (\<lambda>_. [])
     (0 := [(LString ''lgi.compound'', LTable 1), (LString ''lgi.function'', LTable 2),
            (LNumber 1, LTable 3)],
      3 := [(LNumber 1, LTable 4), (LNumber 2, LTable 5), (LNumber 3, LTable 6)],
      6 := [(LString ''Gtk'', LTable 7), (LString ''GObject'', LTable 12),
            (LString ''GIRepository'', LTable 15)],
      7 := [(LString ''Window'', LTable 8), (LString ''Border'', LTable 10),
            (LString ''Requisition'', LTable 18)],
      8 := [(LNumber 0, LTable 9)],
      9 := [(LString ''name'', LString ''Gtk.Window''), (LString ''type'', LNumber 7)],
      10 := [(LNumber 0, LTable 11)],
      11 := [(LString ''name'', LString ''Gtk.Border''), (LString ''type'', LNumber 3),
             (LString ''acquire'', LFunction 1), (LString ''dispose'', LFunction 2)],
      12 := [(LString ''Object'', LTable 13)],
      13 := [(LNumber 0, LTable 14)],
      14 := [(LString ''name'', LString ''GObject.Object''), (LString ''type'', LNumber 7)],
      15 := [(LString ''IBaseInfo'', LTable 16)],
      16 := [(LNumber 0, LTable 17)],
      17 := [(LString ''name'', LString ''GIRepository.IBaseInfo''), (LString ''type'', LNumber 3)],
      18 := [(LNumber 0, LTable 19)],
      19 := [(LString ''name'', LString ''Gtk.Requisition''), (LString ''type'', LNumber 3)])"

definition L0 :: lua_State where
  "L0 = \<lparr>stack = [], tables = heap0, ntables = 20, udata = Map.empty,
          blocks = [0x2000, 0x3000, 0x3100], events = []\<rparr>"

text \<open>
  The state in which the example callable, wrapped in the function userdata at
  \<open>0x8000\<close>, is called with the argument \<open>5\<close>.
\<close>

definition L_call :: "gpointer \<Rightarrow> lua_State" where
  "L_call fn =
     L0\<lparr>stack := [LNumber 5, LUserdata 0x8000],
        udata := [0x8000 \<mapsto> \<lparr>payload = Ud_function \<lparr>invoker = fn, info = callable0\<rparr>,
                              metatable = LTable 2, nbytes = 64\<rparr>]\<rparr>"

text \<open>
  A state with one wrapper, the userdata at \<open>0x2000\<close> for the native address
  \<open>0x1000\<close>, bound to the repo table \<open>T\<close> (8 for \<open>Gtk.Window\<close>, 10 for
  \<open>Gtk.Border\<close>) through reference 1 of the typeinfo table.
\<close>

definition L_wrapper :: "nat \<Rightarrow> lua_State" where
  "L_wrapper T =
     L0\<lparr>stack := [LUserdata 0x2000],
        tables := heap0(4 := [(LLightUserdata 0x2000, LUserdata 0x2000)],
                        5 := [(LNumber 1, LTable T)]),
        udata := [0x2000 \<mapsto> \<lparr>payload = Ud_compound \<lparr>addr = Some 0x1000, ref_repo = Some 1,
                                                        owns = Some True\<rparr>,
                              metatable = LTable 1, nbytes = 12\<rparr>],
        blocks := [0x3000, 0x3100]\<rparr>"

section \<open>Evaluation\<close>

text \<open>The equations that run the model on a concrete state.\<close>

lemmas lua_api =
  bindE_def registry_def LUA_REGISTRYINDEX_def LUA_REFNIL_def FREELIST_REF_def tget_def tset_def
  index2adr_def luaL_typename_def lua_push_def lua_pushnil_def lua_pushboolean_def
  lua_pushinteger_def lua_pushstring_def lua_pushlightuserdata_def lua_pushvalue_def
  lua_gettop_def lua_pop_def lua_settop_def lua_replace_def lua_insert_def lua_isnil_def
  lua_isnoneornil_def lua_rawequal_def lua_touserdata_def lua_tointeger_def
  lua_createtable_def lua_rawgeti_def lua_rawget_def lua_rawset_def lua_rawseti_def
  lua_getfield_def lua_newuserdata_def lua_getmetatable_def lua_setmetatable_def
  luaL_getmetatable_def luaL_argerror_def luaL_typerror_def luaL_checkudata_def
  lua_objlen_def number_of_def luaL_ref_def luaL_unref_def lua_call_def emit_def
  lua_tostring_def g_strcmp0_def lua_concat_def luaL_checkinteger_def luaL_checkstring_def
  luaL_optstring_def

lemmas lgi_defs =
  UD_COMPOUND_def UD_FUNCTION_def ud_compound_data_offset_def G_TYPE_FUNDAMENTAL_MAX_def
  G_TYPE_IS_DERIVED_def get_compound_def get_function_def field_def upd_compound_def
  lgi_get_cached_def lgi_set_cached_def compound_prepare_def compound_callmeta_def
  compound_acquire_def compound_store_def compound_gc_def compound_load_userdata_def
  compound_load_def deref_garg_def deref_garray_def lgi_type_get_size_def
  lgi_simple_val_to_lua_def element_offset_def element_address_def
  assign_member_def lgi_simple_val_from_lua_def lgi_val_from_lua_def value_load_def
  value_store_def
  lgi_error_def lgi_type_new_def function_call_def find_info_def unresolved_message_def
  lgi_find_def GI_FUNCTION_IS_METHOD_def GI_FUNCTION_IS_CONSTRUCTOR_def GI_FUNCTION_THROWS_def

lemmas world_defs =
  E0_def L0_def heap0_def Window_def Object_def Border_def Requisition_def Align_def
  IBaseInfo_def scalar_def interface_def array_of_def decltype0_def decl_int32_def
  decl_boolean_def decl_utf8_def cstring_at_def lua_toboolean_def G_TYPE_NONE_def
  G_TYPE_OBJECT_def GTK_TYPE_WINDOW_def in_int32_def out_int32_def callable0_def ffi_call0_def
  L_call_def L_wrapper_def

section \<open>Lemmas on \<^verbatim>\<open>compound_store\<close>\<close>

text \<open>
  A store with transfer everything of an address that is not a key of the cache: it
  takes the next block \<open>u\<close>, returns the new userdata, registers it in the cache under
  the key \<open>u\<close> (the address of the block, not \<open>adr\<close>), and leaves the layout of the
  registry and every other userdata as they were.
\<close>

lemma compound_store_new_wrapper:
  assumes nz: "adr \<noteq> 0"
      and lay: "layout E L ii reg cache repo nsT typeinfo"
      and miss: "tget (tables L cache) (LLightUserdata adr) = LNil"
      and mem: "blocks L = u # bs"
  shows "(case compound_store E ii adr GI_TRANSFER_EVERYTHING L of
            Inl e \<Rightarrow> False
          | Inr (vals, a, L') \<Rightarrow>
              vals = 1 \<and> a = adr \<and> stack L' = LUserdata u # stack L \<and> blocks L' = bs
              \<and> layout E L' ii reg cache repo nsT typeinfo
              \<and> tables L' cache = (LLightUserdata u, LUserdata u) # tables L cache
              \<and> map_option addr (get_compound u L') = Some (Some adr)
              \<and> map_option owns (get_compound u L') = Some (Some True)
              \<and> (\<forall>p. p \<noteq> u \<longrightarrow> udata L' p = udata L p))"
proof -
  have d: "reg \<noteq> registry" "cache \<noteq> registry" "repo \<noteq> registry" "nsT \<noteq> registry"
      "typeinfo \<noteq> registry" "registry \<noteq> reg" "registry \<noteq> cache" "registry \<noteq> repo"
      "registry \<noteq> nsT" "registry \<noteq> typeinfo" "reg \<noteq> cache" "reg \<noteq> repo" "reg \<noteq> nsT"
      "reg \<noteq> typeinfo" "cache \<noteq> reg" "repo \<noteq> reg" "nsT \<noteq> reg" "typeinfo \<noteq> reg"
      "cache \<noteq> repo" "cache \<noteq> nsT" "cache \<noteq> typeinfo" "repo \<noteq> cache" "nsT \<noteq> cache"
      "typeinfo \<noteq> cache" "repo \<noteq> nsT" "repo \<noteq> typeinfo" "nsT \<noteq> repo" "typeinfo \<noteq> repo"
      "nsT \<noteq> typeinfo" "typeinfo \<noteq> nsT"
    using lay by (auto simp: layout_def)
  have l: "tget (tables L registry) (LNumber (lgi_regkey E)) = LTable reg"
      "tget (tables L reg) (LNumber (LGI_REG_CACHE E)) = LTable cache"
      "tget (tables L reg) (LNumber (LGI_REG_REPO E)) = LTable repo"
      "tget (tables L repo) (LString (g_base_info_get_namespace ii)) = LTable nsT"
      "tget (tables L reg) (LNumber (LGI_REG_TYPEINFO E)) = LTable typeinfo"
    using lay by (auto simp: layout_def)
  show ?thesis
    using nz miss mem d l
    by (simp add: layout_def lua_api lgi_defs)
qed


section \<open>The claims\<close>

subsection \<open>C1: identity of wrappers\<close>

text \<open>
  C1 says that two calls of \<^verbatim>\<open>compound_store\<close> for the same native address, with no
  collection in between, return the same wrapper, so that at most one live wrapper has
  a given address. The code looks the address up under the key \<^verbatim>\<open>*addr\<close> but registers
  a new wrapper under the address of its own userdata block
  (\<^verbatim>\<open>lgi_set_cached(L, compound)\<close>). So in every state with the registry laid out as
  the module sets it up, for every non-null address \<open>adr\<close> that is not cached and is
  not the address of the block the first wrapper gets: the second call misses the cache
  as the first one did, and leaves two wrappers \<open>u1\<close> and \<open>u2\<close> on the stack, both
  with \<open>addr = adr\<close>.
\<close>

theorem compound_store_twice_two_wrappers:
  assumes nz: "adr \<noteq> 0" and other: "adr \<noteq> u1"
      and lay: "layout E L ii reg cache repo nsT typeinfo"
      and miss: "tget (tables L cache) (LLightUserdata adr) = LNil"
      and mem: "blocks L = u1 # u2 # bs" and fresh: "u1 \<noteq> u2"
  shows "(case compound_store E ii adr GI_TRANSFER_EVERYTHING L of
            Inl e \<Rightarrow> False
          | Inr (v1, a1, L1) \<Rightarrow>
              (case compound_store E ii adr GI_TRANSFER_EVERYTHING L1 of
                 Inl e \<Rightarrow> False
               | Inr (v2, a2, L2) \<Rightarrow>
                   v1 = 1 \<and> v2 = 1
                   \<and> stack L1 = LUserdata u1 # stack L
                   \<and> stack L2 = LUserdata u2 # LUserdata u1 # stack L
                   \<and> map_option addr (get_compound u1 L2) = Some (Some adr)
                   \<and> map_option addr (get_compound u2 L2) = Some (Some adr)))"
proof -
  from compound_store_new_wrapper [OF nz lay miss mem]
  obtain L1 where 1: "compound_store E ii adr GI_TRANSFER_EVERYTHING L = Inr (1, adr, L1)"
    and st1: "stack L1 = LUserdata u1 # stack L" and b1: "blocks L1 = u2 # bs"
    and lay1: "layout E L1 ii reg cache repo nsT typeinfo"
    and c1: "tables L1 cache = (LLightUserdata u1, LUserdata u1) # tables L cache"
    and a1: "map_option addr (get_compound u1 L1) = Some (Some adr)"
    by (auto split: sum.splits prod.splits)
  have miss1: "tget (tables L1 cache) (LLightUserdata adr) = LNil"
    using miss other by (simp add: c1 tget_def)
  from compound_store_new_wrapper [OF nz lay1 miss1 b1]
  obtain L2 where 2: "compound_store E ii adr GI_TRANSFER_EVERYTHING L1 = Inr (1, adr, L2)"
    and st2: "stack L2 = LUserdata u2 # stack L1"
    and a2: "map_option addr (get_compound u2 L2) = Some (Some adr)"
    and fr: "\<forall>p. p \<noteq> u2 \<longrightarrow> udata L2 p = udata L1 p"
    by (auto split: sum.splits prod.splits)
  have "get_compound u1 L2 = get_compound u1 L1"
    using fr fresh by (simp add: get_compound_def)
  then show ?thesis
    using 1 2 st1 st2 a1 a2 by simp
qed

text \<open>
  On the example: the window at \<open>0x1000\<close> is stored twice; the first call creates the
  userdata at \<open>0x2000\<close>, the second one another userdata at \<open>0x3000\<close>.
\<close>

theorem compound_store_twice_two_wrappers_witness:
  "(0x1000 :: gpointer) \<noteq> 0 \<and> (0x1000 :: gpointer) \<noteq> 0x2000
   \<and> layout E0 L0 Window 3 4 6 7 5
   \<and> tget (tables L0 4) (LLightUserdata 0x1000) = LNil
   \<and> blocks L0 = [0x2000, 0x3000, 0x3100]
   \<and> (case compound_store E0 Window 0x1000 GI_TRANSFER_EVERYTHING L0 of
         Inl e \<Rightarrow> False
       | Inr (v1, a1, L1) \<Rightarrow>
           (case compound_store E0 Window 0x1000 GI_TRANSFER_EVERYTHING L1 of
              Inl e \<Rightarrow> False
            | Inr (v2, a2, L2) \<Rightarrow>
                v1 = 1 \<and> v2 = 1
                \<and> stack L1 = [LUserdata 0x2000]
                \<and> stack L2 = [LUserdata 0x3000, LUserdata 0x2000]
                \<and> map_option addr (get_compound 0x2000 L2) = Some (Some 0x1000)
                \<and> map_option addr (get_compound 0x3000 L2) = Some (Some 0x1000)))"
proof -
  have lay: "layout E0 L0 Window 3 4 6 7 5"
    by (simp add: layout_def world_defs tget_def registry_def)
  have miss: "tget (tables L0 4) (LLightUserdata 0x1000) = LNil"
    by (simp add: world_defs tget_def)
  have mem: "blocks L0 = 0x2000 # 0x3000 # [0x3100]"
    by (simp add: world_defs)
  have st: "stack L0 = []"
    by (simp add: world_defs)
  from compound_store_twice_two_wrappers [OF _ _ lay miss mem]
  show ?thesis
    using lay miss mem st by (auto split: sum.splits prod.splits)
qed

subsection \<open>C2: the shape of a call's results\<close>

text \<open>
  C2: a function userdata whose callable has the signature
  \<open>(in: int32, out: int32) -> boolean\<close> and may throw is called with the argument
  \<open>5\<close>. The native call gets three values: the slot of the input, whose low four
  bytes hold \<open>5\<close>, the slot of the output as \<^verbatim>\<open>g_newa\<close> left it, and the address of
  the error variable. C2 says that a native call that succeeds with \<open>true\<close> and the
  output \<open>10\<close> gives the results \<open>true\<close> and \<open>10\<close>. The first loop of
  \<^verbatim>\<open>function_call\<close> writes the slots of the input arguments and of the
  caller-allocated ones only, and \<^verbatim>\<open>ffi_call\<close> writes the return slot only: the callee
  is handed the uninitialised content of the output slot as its pointer, and when it
  leaves no error and returns \<open>true\<close> the results are \<open>true\<close> and the number decoded
  from that same uninitialised content, whatever the callee stored. The other half of
  C2 holds: when the native call leaves the error \<open>bad\<close> with code \<open>7\<close>, the call
  returns the three values \<open>false\<close>, \<open>bad\<close>, \<open>7\<close>, raises nothing and pushes
  nothing else; the only effect is the release of the error.
\<close>

theorem function_call_result_shape:
  assumes st: "stack L = [LNumber 5, LUserdata p]" and nz: "p \<noteq> 0"
      and ud: "udata L p = Some \<lparr>payload = Ud_function \<lparr>invoker = fn, info = fi\<rparr>,
                                 metatable = LTable m, nbytes = sz\<rparr>"
      and mt: "tget (tables L registry) (LString UD_FUNCTION) = LTable m"
      and throws: "g_function_info_get_flags fi AND GI_FUNCTION_THROWS \<noteq> 0"
      and no_self: "g_function_info_get_flags fi AND GI_FUNCTION_IS_METHOD = 0"
      and args: "g_callable_info_args fi = [a_in, a_out]"
      and a_in: "g_arg_info_get_direction a_in = GI_DIRECTION_IN"
                "g_type_info_get_tag (g_arg_info_load_type a_in) = GI_TYPE_TAG_INT32"
      and a_out: "g_arg_info_get_direction a_out = GI_DIRECTION_OUT"
                 "g_type_info_get_tag (g_arg_info_load_type a_out) = GI_TYPE_TAG_INT32"
                 "\<not> g_arg_info_is_caller_allocates a_out"
      and ret: "g_type_info_get_tag (g_callable_info_load_return_type fi) = GI_TYPE_TAG_BOOLEAN"
      and codec: "decltype E GI_TYPE_TAG_INT32 = Some decl_int32"
                 "decltype E GI_TYPE_TAG_BOOLEAN = Some decl_boolean"
      and call: "ffi_call E fn (g_newa E 0)
                   [assign_member 4 (g_newa E 1) 5, g_newa E 2, address_of_err E]
                   = (r, err)"
  shows "(err = None \<and> push decl_boolean r = LBoolean True
          \<longrightarrow> function_call (Suc n) E L
                = Inr (2, L\<lparr>stack := [push decl_int32 (g_newa E 2), LBoolean True,
                                       LNumber 5, LUserdata p]\<rparr>))
       \<and> (err = Some \<lparr>message = ''bad'', code = 7\<rparr>
          \<longrightarrow> function_call (Suc n) E L
                = Inr (3, L\<lparr>stack := [LNumber 7, LString ''bad'', LBoolean False,
                                       LNumber 5, LUserdata p],
                             events := events L @ [G_error_free]\<rparr>))"
proof -
  have n2: "Suc (Suc 0) = 2" by simp
  have n4: "[Suc 0..<4] = [Suc 0, 2, 3]" by (simp add: upt_conv_Cons)
  show ?thesis
    using assms
    by (simp add: lua_api lgi_defs Let_def decl_int32_def decl_boolean_def n2 n4)
qed

text \<open>
  On the example, where every fresh slot holds \<open>0xAAAAAAAA55555555\<close>: the callee at
  \<open>0x9000\<close> returns \<open>true\<close> and means to store \<open>10\<close>; the results are \<open>true\<close> and
  \<open>1431655765\<close>, the low four bytes of the slot.
\<close>

theorem function_call_result_shape_witness:
  "function_call (Suc 0) E0 (L_call 0x9000)
     = Inr (2, (L_call 0x9000)\<lparr>stack := [LNumber 1431655765, LBoolean True, LNumber 5,
                                           LUserdata 0x8000]\<rparr>)
   \<and> function_call (Suc 0) E0 (L_call 0x9100)
     = Inr (3, (L_call 0x9100)\<lparr>stack := [LNumber 7, LString ''bad'', LBoolean False,
                                           LNumber 5, LUserdata 0x8000],
                                 events := events (L_call 0x9100) @ [G_error_free]\<rparr>)"
  using function_call_result_shape
          [where L = "L_call 0x9000" and p = "0x8000" and fn = "0x9000" and fi = callable0
             and m = 2 and sz = 64 and a_in = in_int32 and a_out = out_int32 and E = E0
             and r = 1 and err = None and n = 0]
        function_call_result_shape
          [where L = "L_call 0x9100" and p = "0x8000" and fn = "0x9100" and fi = callable0
             and m = 2 and sz = 64 and a_in = in_int32 and a_out = out_int32 and E = E0
             and r = 0 and err = "Some \<lparr>message = ''bad'', code = 7\<rparr>" and n = 0]
  by (simp add: world_defs lua_api UD_FUNCTION_def GI_FUNCTION_THROWS_def
        GI_FUNCTION_IS_METHOD_def)

subsection \<open>C3: null round-trip\<close>

text \<open>
  C3 says that a null array pointer or a null compound address, marshalled with a
  transfer mode other than container, yields nil for every type descriptor. For a
  descriptor of a \<^verbatim>\<open>GArray\<close> the code reads \<^verbatim>\<open>((GArray*)val->v_pointer)->len\<close> before
  it tests the pointer: with a null pointer that is a null dereference, whatever the
  element type, the transfer mode and the state.
\<close>

theorem lgi_array_to_lua_null_garray:
  "lgi_array_to_lua (Suc n) E (GITypeInfo tag ii fixed GI_ARRAY_TYPE_ARRAY zt (Some eti))
     transfer 0 L = Inl Fault"
  by (simp add: deref_garray_def bindE_def)

text \<open>The two parts of C3 that hold: a null C array and a null compound give nil.\<close>

lemma lgi_array_to_lua_null_c_array:
  "lgi_array_to_lua (Suc n) E (GITypeInfo tag ii fixed GI_ARRAY_TYPE_C zt (Some eti))
     transfer 0 L = Inr (1, lua_pushnil L)"
  by (simp add: bindE_def)

lemma compound_store_null:
  "transfer \<noteq> GI_TRANSFER_CONTAINER \<Longrightarrow>
     compound_store E ii 0 transfer L = Inr (1, 0, lua_pushnil L)"
  by (simp add: compound_store_def bindE_def)

subsection \<open>C4: ownership\<close>

text \<open>
  C4 says that a structure stored with transfer none becomes owned exactly when its
  type declares an \<open>acquire\<close> hook, which is then invoked, and stays not owned
  otherwise. \<^verbatim>\<open>compound_callmeta\<close> expects the repo table just below its arguments, but
  \<^verbatim>\<open>compound_store\<close> calls it with the typeinfo table in that place: the hook is looked
  up in slot 0 of the typeinfo table, which holds no table, and the lookup raises. Here
  both a structure with the hook (\<open>Gtk.Border\<close>) and one without
  (\<open>Gtk.Requisition\<close>) end in the Lua error, and no wrapper is returned.
\<close>

theorem compound_store_struct_transfer_none_raises:
  "compound_store E0 Border 0x1000 GI_TRANSFER_NOTHING L0
     = Inl (LuaError ''attempt to index a nil value'')
   \<and> compound_store E0 Requisition 0x1000 GI_TRANSFER_NOTHING L0
     = Inl (LuaError ''attempt to index a nil value'')"
  by (simp add: lua_api lgi_defs world_defs)

text \<open>
  The parts of C4 that hold, on the example: an object stored with transfer none is
  referenced once and owned; finalizing an owned object releases one reference and
  finalizing an owned structure calls its \<open>dispose\<close> hook once.
\<close>

lemma compound_store_object_transfer_none:
  "(case compound_store E0 Window 0x1000 GI_TRANSFER_NOTHING L0 of
      Inl e \<Rightarrow> False
    | Inr (v, a, L) \<Rightarrow>
        v = 1 \<and> stack L = [LUserdata 0x2000] \<and> events L = [G_object_ref 0x1000]
        \<and> map_option owns (get_compound 0x2000 L) = Some (Some True))"
  by (simp add: lua_api lgi_defs world_defs)

lemma compound_gc_releases_once:
  "(case bindE (compound_store E0 Window 0x1000 GI_TRANSFER_EVERYTHING L0)
           (\<lambda>(v, a, L). compound_gc E0 L) of
      Inl e \<Rightarrow> False
    | Inr (v, L) \<Rightarrow> v = 0 \<and> events L = [G_object_unref 0x1000])
   \<and> (case bindE (compound_store E0 Border 0x1000 GI_TRANSFER_EVERYTHING L0)
           (\<lambda>(v, a, L). compound_gc E0 L) of
      Inl e \<Rightarrow> False
    | Inr (v, L) \<Rightarrow> v = 0 \<and> events L = [Lua_call (LFunction 2) [LUserdata 0x2000]])"
  by (simp add: lua_api lgi_defs world_defs)

subsection \<open>C5: the ancestry check\<close>

text \<open>
  C5 says that loading a wrapper of type \<open>T\<close> as type \<open>A\<close> succeeds when \<open>T\<close> is
  \<open>A\<close> or derives from it, and otherwise raises an argument error that names the
  actual type. The code comments its check as the ``final check for type ancestry'',
  done through the GType where there is one and through the names otherwise. Two inputs
  where the code does not do that. The wrapper of a window, whose runtime type derives
  from \<open>GObject\<close>, is rejected when it is loaded as \<open>GObject.Object\<close>:
  \<^verbatim>\<open>G_TYPE_IS_DERIVED\<close> is false for the fundamental type \<open>GObject\<close> too, so the
  names are compared, and they differ. And the wrapper of a \<open>Gtk.Border\<close> loaded as
  \<open>Gtk.Requisition\<close> raises an error that names \<open>Gtk.Requisition\<close>, the requested
  type: \<^verbatim>\<open>luaL_argerror\<close> is given the string at \<open>-1\<close>, the requested name, where the
  GType branch gives the name of the actual type.
\<close>

theorem compound_load_ancestry_fails:
  "g_type_from_instance E0 0x1000 = Some GTK_TYPE_WINDOW
   \<and> g_type_is_a E0 GTK_TYPE_WINDOW (g_registered_type_info_get_g_type Object)
   \<and> compound_load E0 1 Object False (L_wrapper 8) = Inl (ArgError 1 ''GObject.Object'')
   \<and> tget (tables (L_wrapper 10) 11) (LString ''name'') = LString ''Gtk.Border''
   \<and> compound_load E0 1 Requisition False (L_wrapper 10) = Inl (ArgError 1 ''Gtk.Requisition'')"
  by (simp add: lua_api lgi_defs world_defs)

text \<open>
  The two branches of \<^verbatim>\<open>compound_load\<close> for a compound wrapper of the address \<open>a\<close>
  at \<open>index\<close>. When the GType of the requested type \<open>A\<close> is a derived type and the
  instance at \<open>a\<close> has the runtime type \<open>R\<close>, the load returns \<open>a\<close> if \<open>R\<close> is-a
  \<open>A\<close>; if not it returns null when \<open>optional\<close> is set and otherwise raises an
  argument error for \<open>index\<close> with the name of \<open>R\<close>; the type the wrapper is bound
  to is not looked at. When the GType of \<open>A\<close> is not a derived type and the repo table
  of the wrapper has the name \<open>N\<close>, the load returns \<open>a\<close> if \<open>N\<close> is the qualified
  name of \<open>A\<close>; if not it returns null when \<open>optional\<close> is set and otherwise raises
  an argument error for \<open>index\<close> with the qualified name of \<open>A\<close>. The state is left
  as it was.
\<close>

lemma compound_load_paths:
  assumes idx: "index2adr L index = Some (LUserdata p)" and nz: "p \<noteq> 0"
      and ud: "udata L p = Some \<lparr>payload = Ud_compound \<lparr>addr = Some a, ref_repo = Some r,
                                                          owns = own\<rparr>,
                                 metatable = LTable m, nbytes = sz\<rparr>"
      and mt: "tget (tables L registry) (LString UD_COMPOUND) = LTable m"
  shows "(G_TYPE_IS_DERIVED (g_registered_type_info_get_g_type A)
            \<and> g_type_from_instance E a = Some R \<longrightarrow>
          compound_load E index A optional L =
            (if g_type_is_a E R (g_registered_type_info_get_g_type A) then Inr (a, L)
             else if optional then Inr (0, L)
             else Inl (ArgError index (g_type_name E R))))
       \<and> (\<not> G_TYPE_IS_DERIVED (g_registered_type_info_get_g_type A)
            \<and> tget (tables L registry) (LNumber (lgi_regkey E)) = LTable reg
            \<and> tget (tables L reg) (LNumber (LGI_REG_TYPEINFO E)) = LTable typeinfo
            \<and> tget (tables L typeinfo) (LNumber r) = LTable T
            \<and> tget (tables L T) (LNumber 0) = LTable T0
            \<and> tget (tables L T0) (LString ''name'') = LString N \<longrightarrow>
          compound_load E index A optional L =
            (if N = g_base_info_get_namespace A @ ''.'' @ g_base_info_get_name A
             then Inr (a, L)
             else if optional then Inr (0, L)
             else Inl (ArgError index
                         (g_base_info_get_namespace A @ ''.'' @ g_base_info_get_name A))))"
proof -
  have u: "compound_load_userdata index optional L = Inr p"
    using assms by (simp add: compound_load_userdata_def lua_api UD_COMPOUND_def)
  have cu: "luaL_checkudata index UD_COMPOUND L = Inr p"
    using assms by (simp add: lua_api UD_COMPOUND_def)
  have f: "field addr p L = Inr a"
    using ud by (simp add: field_def get_compound_def)
  have derived: "compound_load E index A optional L =
            (if g_type_is_a E R (g_registered_type_info_get_g_type A) then Inr (a, L)
             else if optional then Inr (0, L)
             else Inl (ArgError index (g_type_name E R)))"
    if "G_TYPE_IS_DERIVED (g_registered_type_info_get_g_type A)"
      and "g_type_from_instance E a = Some R"
    using that nz by (simp add: compound_load_def u f bindE_def luaL_argerror_def)
  have named: "compound_load E index A optional L =
            (if N = g_base_info_get_namespace A @ ''.'' @ g_base_info_get_name A
             then Inr (a, L)
             else if optional then Inr (0, L)
             else Inl (ArgError index
                         (g_base_info_get_namespace A @ ''.'' @ g_base_info_get_name A)))"
    if "\<not> G_TYPE_IS_DERIVED (g_registered_type_info_get_g_type A)"
      and "tget (tables L registry) (LNumber (lgi_regkey E)) = LTable reg"
      and "tget (tables L reg) (LNumber (LGI_REG_TYPEINFO E)) = LTable typeinfo"
      and "tget (tables L typeinfo) (LNumber r) = LTable T"
      and "tget (tables L T) (LNumber 0) = LTable T0"
      and "tget (tables L T0) (LString ''name'') = LString N"
    using that nz
    by (simp add: compound_load_def compound_prepare_def u cu ud field_def get_compound_def
          bindE_def registry_def LUA_REGISTRYINDEX_def tget_def index2adr_def lua_push_def
          lua_pushstring_def lua_pop_def lua_replace_def lua_isnil_def lua_rawgeti_def
          lua_getfield_def lua_tostring_def g_strcmp0_def lua_concat_def luaL_argerror_def)
  from derived named show ?thesis by blast
qed

text \<open>
  On the example: the wrapper of a window loads as \<open>Gtk.Window\<close> through its GType,
  and the wrapper of a \<open>Gtk.Border\<close> loads as \<open>Gtk.Border\<close> through its name.
\<close>

lemma compound_load_paths_example:
  "index2adr (L_wrapper 8) 1 = Some (LUserdata 0x2000)
   \<and> G_TYPE_IS_DERIVED (g_registered_type_info_get_g_type Window)
   \<and> g_type_from_instance E0 0x1000 = Some GTK_TYPE_WINDOW
   \<and> compound_load E0 1 Window False (L_wrapper 8) = Inr (0x1000, L_wrapper 8)
   \<and> \<not> G_TYPE_IS_DERIVED (g_registered_type_info_get_g_type Border)
   \<and> tget (tables (L_wrapper 10) 11) (LString ''name'') = LString ''Gtk.Border''
   \<and> compound_load E0 1 Border False (L_wrapper 10) = Inr (0x1000, L_wrapper 10)"
  using compound_load_paths
          [where L = "L_wrapper 8" and index = 1 and p = "0x2000" and a = "0x1000" and r = 1
             and own = "Some True" and m = 1 and sz = 12 and A = Window and E = E0
             and R = GTK_TYPE_WINDOW and optional = False]
        compound_load_paths
          [where L = "L_wrapper 10" and index = 1 and p = "0x2000" and a = "0x1000" and r = 1
             and own = "Some True" and m = 1 and sz = 12 and A = Border and E = E0
             and reg = 3 and typeinfo = 5 and T = 10 and ?T0.0 = 11 and N = "''Gtk.Border''"
             and optional = False]
  by (simp add: world_defs index2adr_def tget_def registry_def UD_COMPOUND_def
        G_TYPE_IS_DERIVED_def G_TYPE_FUNDAMENTAL_MAX_def)

subsection \<open>C6: the element count of an array\<close>











subsection \<open>C7: truncation at the terminator\<close>

text \<open>
  C7 says that a zero-terminated array over \<open>v0\<close>, \<open>v1\<close>, null, \<open>v3\<close> is marshalled
  to the sequence of \<open>v0\<close> and \<open>v1\<close>. The offset of element \<open>index\<close> is
  \<^verbatim>\<open>index * size\<close>, and \<^verbatim>\<open>lgi_type_get_size\<close> gives the size 0 for every tag that is
  not a row of the scalar table, the interface tag among them. So for an array of
  objects every turn of the loop reads element 0 again and the terminator is never
  seen. Here the array at \<open>0x6000\<close> holds the windows \<open>0x1000\<close> and \<open>0x1100\<close>, null,
  and the window \<open>0x1200\<close>. Without a fixed size the loop wraps element 0 until the
  three userdata blocks of the example are used up, whatever the iteration budget
  beyond six. With the fixed size 3 it returns three wrappers, each of them for
  \<open>0x1000\<close>.
\<close>

theorem zero_terminated_object_array_not_truncated:
  "lgi_type_get_size E0 GI_TYPE_TAG_INTERFACE = 0
   \<and> lgi_array_to_lua (Suc (Suc (Suc (Suc (Suc (Suc n)))))) E0
        (array_of (interface Window) (-1) GI_ARRAY_TYPE_C True) GI_TRANSFER_NOTHING 0x6000 L0
       = Inl MemError
   \<and> (case lgi_array_to_lua (Suc (Suc (Suc (Suc (Suc (Suc 0)))))) E0
              (array_of (interface Window) 3 GI_ARRAY_TYPE_C True) GI_TRANSFER_NOTHING 0x6000
              L0 of
         Inl e \<Rightarrow> False
       | Inr (vals, L) \<Rightarrow>
           vals = 1 \<and> stack L = [LTable 20]
           \<and> tables L 20 = [(LNumber 3, LUserdata 0x3100), (LNumber 2, LUserdata 0x3000),
                              (LNumber 1, LUserdata 0x2000)]
           \<and> map (\<lambda>p. map_option addr (get_compound p L)) [0x2000, 0x3000, 0x3100]
               = [Some (Some 0x1000), Some (Some 0x1000), Some (Some 0x1000)])"
  by (simp add: lua_api lgi_defs world_defs)

text \<open>
  For elements of pointer size from the scalar table the terminator works as C7 says:
  the array of strings \<open>foo\<close>, \<open>bar\<close>, null, \<open>baz\<close> gives \<open>foo\<close> and \<open>bar\<close>.
\<close>

lemma zero_terminated_string_array_truncated:
  "lgi_array_to_lua (Suc (Suc (Suc (Suc (Suc n))))) E0
       (array_of (scalar GI_TYPE_TAG_UTF8) (-1) GI_ARRAY_TYPE_C True)
       GI_TRANSFER_NOTHING 0x5000 L0
     = Inr (1, L0\<lparr>stack := [LTable 20],
                  tables := heap0(20 := [(LNumber 2, LString ''bar''),
                                         (LNumber 1, LString ''foo'')]),
                  ntables := 21\<rparr>)"
  by (simp add: lua_api lgi_defs world_defs)

subsection \<open>C8: generic values of structure type\<close>

text \<open>
  C8: loading a Lua value into a generic value whose type is a structure, and storing
  such a generic value to Lua, both raise a Lua error with a descriptive message, for
  every structure type, value and state.
\<close>

theorem struct_gvalue_rejected:
  assumes "g_type_info_get_tag ti = GI_TYPE_TAG_INTERFACE"
      and "g_type_info_get_interface ti = Some ii"
      and "g_base_info_get_type ii = GI_INFO_TYPE_STRUCT"
  shows "value_load E val narg ti L
           = Inl (LuaError ''don't know how to handle struct->GValue'')
       \<and> value_store E val ti L
           = Inl (LuaError ''don't know how to handle GValue->struct'')"
  using assms by (simp add: value_load_def value_store_def)

theorem struct_gvalue_rejected_witness:
  "g_type_info_get_tag (interface Border) = GI_TYPE_TAG_INTERFACE
   \<and> g_type_info_get_interface (interface Border) = Some Border
   \<and> g_base_info_get_type Border = GI_INFO_TYPE_STRUCT
   \<and> value_load E0 \<lparr>g_type = 0, data = 0\<rparr> 1 (interface Border) L0
       = Inl (LuaError ''don't know how to handle struct->GValue'')
   \<and> value_store E0 \<lparr>g_type = 0, data = 0\<rparr> (interface Border) L0
       = Inl (LuaError ''don't know how to handle GValue->struct'')"
  using struct_gvalue_rejected [of "interface Border" Border E0 "\<lparr>g_type = 0, data = 0\<rparr>" 1 L0]
  by (simp add: interface_def Border_def)

subsection \<open>C9: enumerations and flags\<close>

text \<open>
  C9: for an enumeration or flags type, \<^verbatim>\<open>lgi_val_to_lua\<close> is the scalar codec of the
  storage type run with transfer none, whatever transfer mode the caller passed: the
  slot is left as it was and no release is recorded. (The scalar table has no row for
  the interface tag: the \<^verbatim>\<open>switch\<close> statements of \<^verbatim>\<open>value_load\<close> and \<^verbatim>\<open>value_store\<close>
  could not list the tag next to the rows otherwise.)
\<close>

theorem enum_to_lua_releases_nothing:
  assumes "g_type_info_get_tag ti = GI_TYPE_TAG_INTERFACE"
      and "g_type_info_get_interface ti = Some ii"
      and "g_base_info_get_type ii = GI_INFO_TYPE_ENUM
           \<or> g_base_info_get_type ii = GI_INFO_TYPE_FLAGS"
      and "decltype E GI_TYPE_TAG_INTERFACE = None"
  shows "lgi_val_to_lua (Suc n) E ti transfer val L
           = Inr (fst (lgi_simple_val_to_lua E (g_enum_info_get_storage_type ii)
                         GI_TRANSFER_NOTHING val L),
                  val,
                  snd (lgi_simple_val_to_lua E (g_enum_info_get_storage_type ii)
                         GI_TRANSFER_NOTHING val L))
       \<and> events (snd (lgi_simple_val_to_lua E (g_enum_info_get_storage_type ii)
                         GI_TRANSFER_NOTHING val L)) = events L"
  using assms
  by (auto simp add: lgi_simple_val_to_lua_def lua_push_def split: option.splits)

theorem enum_to_lua_releases_nothing_witness:
  "g_type_info_get_tag (interface Align) = GI_TYPE_TAG_INTERFACE
   \<and> g_type_info_get_interface (interface Align) = Some Align
   \<and> g_base_info_get_type Align = GI_INFO_TYPE_ENUM
   \<and> decltype E0 GI_TYPE_TAG_INTERFACE = None
   \<and> lgi_val_to_lua (Suc 0) E0 (interface Align) GI_TRANSFER_EVERYTHING 2 L0
       = Inr (1, 2, L0\<lparr>stack := [LNumber 2]\<rparr>)"
  using enum_to_lua_releases_nothing
          [of "interface Align" Align E0 0 GI_TRANSFER_EVERYTHING 2 L0]
  by (simp add: lgi_simple_val_to_lua_def lua_push_def world_defs)

subsection \<open>C10: symbol resolution\<close>



end
